theory Spec2Isabelle
  imports Main
begin

section \<open>Errors and log lines\<close>

text \<open>
  Go errors are values. \<open>Errorf\<close> is \<^verbatim>\<open>fmt.Errorf\<close> with its format string and
  arguments kept as they are written in the source (\<open>Cause\<close> is an error under a
  \<^verbatim>\<open>%w\<close> or \<^verbatim>\<open>%v\<close> verb, \<open>Dur\<close> a \<^verbatim>\<open>time.Duration\<close> in nanoseconds,
  \<open>Secs\<close> the floating-point \<^verbatim>\<open>Seconds()\<close> of one, \<open>Joined\<close> a
  \<^verbatim>\<open>strings.Join\<close> of built strings); a \<open>message\<close> is a string built by
  \<^verbatim>\<open>fmt.Sprintf\<close>, or a literal (no arguments). The other constructors are the errors of the
  collaborators (the Kubernetes client, package \<^verbatim>\<open>os\<close> and \<^verbatim>\<open>encoding/json\<close>)
  and \<open>Panic\<close>, a run-time panic that ends the call.
\<close>

datatype error =
    ApiError nat
  | NotFoundError string
  | InvalidError string
  | OsError string
  | JsonSyntaxError
  | Panic string
  | Errorf string "arg list"
and arg =
    Str string
  | Num int
  | Dur int
  | Secs int
  | Cause error
  | Joined "message list" string
and message = Sprintf string "arg list"

text \<open>
  A log line is the level of the \<^verbatim>\<open>utils\<close> function that printed it and its
  message. The wall-clock prefix of a line is not kept.
\<close>

datatype level = INFO | WARN | ERROR | DRYRUN

section \<open>Strings\<close>

text \<open>\<^verbatim>\<open>strings.HasPrefix\<close> and \<^verbatim>\<open>strings.Contains\<close>.\<close>

fun HasPrefix :: "string \<Rightarrow> string \<Rightarrow> bool" where
  "HasPrefix s [] = True"
| "HasPrefix [] (p # ps) = False"
| "HasPrefix (c # s) (p # ps) = (c = p \<and> HasPrefix s ps)"

fun Contains :: "string \<Rightarrow> string \<Rightarrow> bool" where
  "Contains [] substr = (substr = [])"
| "Contains (c # s) substr = (HasPrefix (c # s) substr \<or> Contains s substr)"

text \<open>Decimal digits, as \<^verbatim>\<open>%d\<close> and the layouts of package \<^verbatim>\<open>time\<close> print them.\<close>

definition digits :: string where
  "digits = ''0123456789''"

definition digit :: "nat \<Rightarrow> char" where
  "digit n = digits ! (n mod 10)"



fun Itoa :: "nat \<Rightarrow> string" where
  "Itoa n = (if n < 10 then [digit n] else Itoa (n div 10) @ [digit n])"




section \<open>Time\<close>

text \<open>
  A \<^verbatim>\<open>time.Time\<close> in UTC as its accessors show it: the civil date and time of day,
  and the Unix seconds. \<open>valid_Time\<close> is the range of values \<^verbatim>\<open>time.Now().UTC()\<close>
  has in the years 0 to 9999.
\<close>

record Time =
  Year :: nat
  Month :: nat
  Day :: nat
  Hour :: nat
  Minute :: nat
  Second :: nat
  Unix :: nat






section \<open>The action ledger's data (internal/state)\<close>

text \<open>
  \<^verbatim>\<open>ChaosAction\<close> of package \<^verbatim>\<open>state\<close>. The Go field
  \<^verbatim>\<open>Metadata map[string]string\<close> may be the nil map, which Go's deep equality
  and \<^verbatim>\<open>encoding/json\<close> (\<^verbatim>\<open>null\<close> against \<^verbatim>\<open>{}\<close>) tell apart
  from the empty map: \<open>None\<close> is the nil map.
\<close>

record ChaosAction =
  Type :: string
  TargetPod :: string
  Namespace :: string
  Timestamp :: string
  Metadata :: "(string \<rightharpoonup> string) option"

section \<open>Kubernetes objects (k8s.io/api/core/v1), the fields the program reads or writes\<close>

text \<open>
  \<^verbatim>\<open>PodPhase\<close>, \<^verbatim>\<open>PodConditionType\<close> and \<^verbatim>\<open>ConditionStatus\<close> are string
  types in Go; these are the constants of them the program names.
\<close>

type_synonym PodPhase = string

type_synonym PodConditionType = string

type_synonym ConditionStatus = string

abbreviation PodPending :: PodPhase where
  "PodPending \<equiv> ''Pending''"

abbreviation PodRunning :: PodPhase where
  "PodRunning \<equiv> ''Running''"

abbreviation PodReady :: PodConditionType where
  "PodReady \<equiv> ''Ready''"

abbreviation ConditionTrue :: ConditionStatus where
  "ConditionTrue \<equiv> ''True''"

abbreviation ConditionFalse :: ConditionStatus where
  "ConditionFalse \<equiv> ''False''"

record ResourceRequirements =
  Requests :: "(string \<times> string) list"
  Limits :: "(string \<times> string) list"

record SecurityContext =
  Privileged :: bool
  Capabilities_Add :: "string list"

text \<open>
  An ephemeral container. \<open>Command\<close> keeps each element as the \<^verbatim>\<open>fmt.Sprintf\<close>
  call that builds it. \<open>None\<close> in the last two fields is the Go zero value, which a
  JSON body leaves out.
\<close>

record EphemeralContainer =
  Name :: string
  Image :: string
  Command :: "message list"
  Resources :: "ResourceRequirements option"
  SecurityContext :: "SecurityContext option"

record Pod =
  pod_Name :: string
  pod_Namespace :: string
  pod_UID :: string
  pod_Phase :: PodPhase
  pod_PodIP :: string
  pod_Conditions :: "(PodConditionType \<times> ConditionStatus) list"
  pod_EphemeralContainers :: "EphemeralContainer list"

record ServicePort =
  sp_Name :: string
  sp_Port :: int
  sp_Protocol :: string

record Service =
  svc_Name :: string
  svc_Namespace :: string
  svc_Ports :: "ServicePort list"

record ObjectReference =
  ref_Kind :: string
  ref_Namespace :: string
  ref_Name :: string
  ref_UID :: string

record EndpointAddress =
  IP :: string
  TargetRef :: "ObjectReference option"

record EndpointPort =
  port_Name :: string
  port_Port :: int
  port_Protocol :: string

record EndpointSubset =
  Addresses :: "EndpointAddress list"
  NotReadyAddresses :: "EndpointAddress list"
  Ports :: "EndpointPort list"

record Endpoints =
  ep_Name :: string
  ep_Namespace :: string
  Subsets :: "EndpointSubset list"

section \<open>The file system\<close>

text \<open>
  The bytes of a file are kept as what \<^verbatim>\<open>encoding/json\<close> makes of them, since the
  program reads and writes files through that package only: no bytes at all, the bytes
  \<^verbatim>\<open>json.Marshal\<close> or \<^verbatim>\<open>json.MarshalIndent\<close> (with its prefix and indent)
  wrote for a value, which \<^verbatim>\<open>json.Unmarshal\<close> decodes to that value again, or any
  other bytes, which decode to nothing.
\<close>

datatype json_doc = Actions_Doc "ChaosAction list" | Endpoints_Doc Endpoints

datatype file_data =
    Zero_Length
  | Json "(string \<times> string) option" json_doc
  | Not_Json

text \<open>
  A regular file: whether the process may read it, and its bytes. \<^verbatim>\<open>os.WriteFile\<close>
  creates a file readable (mode 0644) and keeps the mode of a file that exists.
\<close>

datatype file_node = File (readable: bool) (bytes: file_data)

datatype os_call =
    WriteFile_call string
  | MkdirAll_call string
  | Remove_call string

text \<open>
  \<open>files\<close> maps the path of each regular file to the file, \<open>failing\<close> lists the
  calls of package \<^verbatim>\<open>os\<close> that the system refuses (permissions, a full disk; a
  refused call changes nothing), and \<open>homeDir\<close> is what \<^verbatim>\<open>os.UserHomeDir\<close> finds.
\<close>

record filesystem =
  files :: "string \<rightharpoonup> file_node"
  failing :: "os_call list"
  homeDir :: "string option"

text \<open>\<^verbatim>\<open>os.IsNotExist(err)\<close> for the error of \<^verbatim>\<open>os.Stat(path)\<close>.\<close>

definition os_IsNotExist :: "string \<Rightarrow> filesystem \<Rightarrow> bool" where
  "os_IsNotExist path f = (files f path = None)"

definition os_ReadFile :: "string \<Rightarrow> filesystem \<Rightarrow> error + file_data" where
  "os_ReadFile path f =
     (case files f path of
        None \<Rightarrow> Inl (OsError ''no such file or directory'')
      | Some (File r data) \<Rightarrow>
          if \<not> r then Inl (OsError ''permission denied'') else Inr data)"

definition os_WriteFile :: "string \<Rightarrow> file_data \<Rightarrow> filesystem \<Rightarrow> error option \<times> filesystem" where
  "os_WriteFile path data f =
     (if WriteFile_call path \<in> set (failing f) then (Some (OsError ''write failed''), f)
      else case files f path of
        None \<Rightarrow> (None, f\<lparr>files := (files f)(path \<mapsto> File True data)\<rparr>)
      | Some (File r old) \<Rightarrow> (None, f\<lparr>files := (files f)(path \<mapsto> File r data)\<rparr>))"

definition os_MkdirAll :: "string \<Rightarrow> filesystem \<Rightarrow> error option" where
  "os_MkdirAll path f =
     (if MkdirAll_call path \<in> set (failing f) then Some (OsError ''mkdir failed'') else None)"

definition os_Remove :: "string \<Rightarrow> filesystem \<Rightarrow> error option \<times> filesystem" where
  "os_Remove path f =
     (if files f path = None then (Some (OsError ''no such file or directory''), f)
      else if Remove_call path \<in> set (failing f) then (Some (OsError ''permission denied''), f)
      else (None, f\<lparr>files := (files f)(path := None)\<rparr>))"

definition os_UserHomeDir :: "filesystem \<Rightarrow> error + string" where
  "os_UserHomeDir f =
     (case homeDir f of None \<Rightarrow> Inl (OsError ''$HOME is not defined'') | Some h \<Rightarrow> Inr h)"

text \<open>
  \<^verbatim>\<open>filepath.Join\<close> and \<^verbatim>\<open>filepath.Dir\<close> on slash-separated paths that
  need no cleaning (no empty, \<^verbatim>\<open>.\<close> or \<^verbatim>\<open>..\<close> element).
\<close>

fun Join :: "string list \<Rightarrow> string" where
  "Join [] = []"
| "Join [e] = e"
| "Join (e # es) = e @ ''/'' @ Join es"

definition Dir :: "string \<Rightarrow> string" where
  "Dir path =
     (let d = rev (dropWhile (\<lambda>c. c \<noteq> CHR ''/'') (rev path))
      in if d = [] then ''.'' else if d = ''/'' then ''/'' else butlast d)"

text \<open>\<^verbatim>\<open>json.MarshalIndent(v, "", "  ")\<close> and \<^verbatim>\<open>json.Unmarshal\<close> at the two types.\<close>

definition MarshalIndent_actions :: "ChaosAction list \<Rightarrow> file_data" where
  "MarshalIndent_actions actions = Json (Some ('''', ''  '')) (Actions_Doc actions)"

definition MarshalIndent_endpoints :: "Endpoints \<Rightarrow> file_data" where
  "MarshalIndent_endpoints e = Json (Some ('''', ''  '')) (Endpoints_Doc e)"

fun Unmarshal_actions :: "file_data \<Rightarrow> error + ChaosAction list" where
  "Unmarshal_actions (Json ind (Actions_Doc actions)) = Inr actions"
| "Unmarshal_actions other = Inl JsonSyntaxError"

fun Unmarshal_endpoints :: "file_data \<Rightarrow> error + Endpoints" where
  "Unmarshal_endpoints (Json ind (Endpoints_Doc e)) = Inr e"
| "Unmarshal_endpoints other = Inl JsonSyntaxError"

section \<open>The cluster behind the Kubernetes client\<close>

text \<open>
  The requests of the client. The body of a pod patch,
  \<^verbatim>\<open>{"spec":{"ephemeralContainers":[...]}}\<close>, is kept as the list of containers it
  names, each with the fields its JSON object gives.
\<close>

datatype PatchType = JSONPatchType | MergePatchType | StrategicMergePatchType

datatype request =
    ListPods string string
  | GetPod string string
  | PatchPod string string PatchType "EphemeralContainer list" string
  | DeletePod string string
  | GetService string string
  | GetEndpoints string string
  | UpdateEndpoints string Endpoints

text \<open>
  The objects of the cluster; the API server's reading of a label selector (\<open>matches\<close>)
  and of a patch of a pod's ephemeral containers (\<open>apply_patch\<close>: the patched pod, or
  the error it answers); the trace of the requests the client sent, oldest first; and
  \<open>faults\<close>: the positions in that trace of the requests the API server answers with
  an error and without effect (a timeout, a conflict, a refusal).
\<close>

record cluster =
  pods :: "Pod list"
  services :: "Service list"
  endpoints :: "Endpoints list"
  matches :: "string \<Rightarrow> Pod \<Rightarrow> bool"
  apply_patch :: "Pod \<Rightarrow> EphemeralContainer list \<Rightarrow> error + Pod"
  requests :: "request list"
  faults :: "nat list"

definition fault_now :: "cluster \<Rightarrow> bool" where
  "fault_now c = (length (requests c) \<in> set (faults c))"

definition send :: "request \<Rightarrow> cluster \<Rightarrow> cluster" where
  "send r c = c\<lparr>requests := requests c @ [r]\<rparr>"

definition is_pod :: "string \<Rightarrow> string \<Rightarrow> Pod \<Rightarrow> bool" where
  "is_pod namespace name p = (pod_Namespace p = namespace \<and> pod_Name p = name)"

definition is_endpoints :: "string \<Rightarrow> string \<Rightarrow> Endpoints \<Rightarrow> bool" where
  "is_endpoints namespace name e = (ep_Namespace e = namespace \<and> ep_Name e = name)"

definition is_service :: "string \<Rightarrow> string \<Rightarrow> Service \<Rightarrow> bool" where
  "is_service namespace name s = (svc_Namespace s = namespace \<and> svc_Name s = name)"

text \<open>
  The calls of \<^verbatim>\<open>client.CoreV1()\<close> the program makes. Each is recorded in the trace;
  a faulted call and a call that names an object the cluster does not have return an
  error and change nothing else.
\<close>

definition Pods_List :: "string \<Rightarrow> string \<Rightarrow> cluster \<Rightarrow> (error + Pod list) \<times> cluster" where
  "Pods_List namespace selector c =
     (let c' = send (ListPods namespace selector) c
      in if fault_now c then (Inl (ApiError (length (requests c))), c')
         else (Inr (filter (\<lambda>p. pod_Namespace p = namespace \<and> matches c selector p) (pods c)), c'))"

definition Pods_Get :: "string \<Rightarrow> string \<Rightarrow> cluster \<Rightarrow> (error + Pod) \<times> cluster" where
  "Pods_Get namespace name c =
     (let c' = send (GetPod namespace name) c
      in if fault_now c then (Inl (ApiError (length (requests c))), c')
         else case find (is_pod namespace name) (pods c) of
           None \<Rightarrow> (Inl (NotFoundError name), c')
         | Some p \<Rightarrow> (Inr p, c'))"

fun replace_first :: "('a \<Rightarrow> bool) \<Rightarrow> 'a \<Rightarrow> 'a list \<Rightarrow> 'a list" where
  "replace_first P y [] = []"
| "replace_first P y (x # xs) = (if P x then y # xs else x # replace_first P y xs)"

definition Pods_Patch ::
  "string \<Rightarrow> string \<Rightarrow> PatchType \<Rightarrow> EphemeralContainer list \<Rightarrow> string \<Rightarrow> cluster
     \<Rightarrow> (error + Pod) \<times> cluster" where
  "Pods_Patch namespace name pt body subresource c =
     (let c' = send (PatchPod namespace name pt body subresource) c
      in if fault_now c then (Inl (ApiError (length (requests c))), c')
         else case find (is_pod namespace name) (pods c) of
           None \<Rightarrow> (Inl (NotFoundError name), c')
         | Some p \<Rightarrow>
             (case apply_patch c p body of
                Inl err \<Rightarrow> (Inl err, c')
              | Inr p' \<Rightarrow>
                  (Inr p', c'\<lparr>pods := replace_first (is_pod namespace name) p' (pods c)\<rparr>)))"

definition Pods_Delete :: "string \<Rightarrow> string \<Rightarrow> cluster \<Rightarrow> error option \<times> cluster" where
  "Pods_Delete namespace name c =
     (let c' = send (DeletePod namespace name) c
      in if fault_now c then (Some (ApiError (length (requests c))), c')
         else case find (is_pod namespace name) (pods c) of
           None \<Rightarrow> (Some (NotFoundError name), c')
         | Some p \<Rightarrow> (None, c'\<lparr>pods := filter (\<lambda>q. \<not> is_pod namespace name q) (pods c)\<rparr>))"

definition Services_Get :: "string \<Rightarrow> string \<Rightarrow> cluster \<Rightarrow> (error + Service) \<times> cluster" where
  "Services_Get namespace name c =
     (let c' = send (GetService namespace name) c
      in if fault_now c then (Inl (ApiError (length (requests c))), c')
         else case find (is_service namespace name) (services c) of
           None \<Rightarrow> (Inl (NotFoundError name), c')
         | Some s \<Rightarrow> (Inr s, c'))"

definition Endpoints_Get :: "string \<Rightarrow> string \<Rightarrow> cluster \<Rightarrow> (error + Endpoints) \<times> cluster" where
  "Endpoints_Get namespace name c =
     (let c' = send (GetEndpoints namespace name) c
      in if fault_now c then (Inl (ApiError (length (requests c))), c')
         else case find (is_endpoints namespace name) (endpoints c) of
           None \<Rightarrow> (Inl (NotFoundError name), c')
         | Some e \<Rightarrow> (Inr e, c'))"

definition Endpoints_Update :: "string \<Rightarrow> Endpoints \<Rightarrow> cluster \<Rightarrow> (error + Endpoints) \<times> cluster" where
  "Endpoints_Update namespace e c =
     (let c' = send (UpdateEndpoints namespace e) c
      in if fault_now c then (Inl (ApiError (length (requests c))), c')
         else if ep_Namespace e \<noteq> namespace then (Inl (InvalidError (ep_Name e)), c')
         else case find (is_endpoints namespace (ep_Name e)) (endpoints c) of
           None \<Rightarrow> (Inl (NotFoundError (ep_Name e)), c')
         | Some old \<Rightarrow>
             (Inr e, c'\<lparr>endpoints := replace_first (is_endpoints namespace (ep_Name e)) e (endpoints c)\<rparr>))"

section \<open>The process\<close>

text \<open>
  What one run of the command line tool works on: the file system, the cluster, the
  lines logged so far, the package variable \<^verbatim>\<open>stateFile\<close>,
  \<^verbatim>\<open>config.GlobalConfig.DryRun\<close>, the clock, and the numbers the coming calls of
  \<^verbatim>\<open>rand.Intn\<close> draw (each is reduced into the range asked for). The mutex of
  package \<^verbatim>\<open>state\<close> guards against other goroutines; a run is sequential here.
\<close>

record world =
  fs :: filesystem
  k8s :: cluster
  logged :: "(level \<times> message) list"
  stateFile :: string
  GlobalConfig_DryRun :: bool
  clock :: Time
  draws :: "nat list"

definition Info :: "message \<Rightarrow> world \<Rightarrow> world" where
  "Info msg w = w\<lparr>logged := logged w @ [(INFO, msg)]\<rparr>"

definition Warn :: "message \<Rightarrow> world \<Rightarrow> world" where
  "Warn msg w = w\<lparr>logged := logged w @ [(WARN, msg)]\<rparr>"

definition Error :: "message \<Rightarrow> world \<Rightarrow> world" where
  "Error msg w = w\<lparr>logged := logged w @ [(ERROR, msg)]\<rparr>"

definition DryRun :: "message \<Rightarrow> world \<Rightarrow> world" where
  "DryRun msg w =
     (if GlobalConfig_DryRun w then w\<lparr>logged := logged w @ [(DRYRUN, msg)]\<rparr> else w)"

section \<open>The action ledger (internal/state)\<close>

definition loadActions :: "world \<Rightarrow> error + ChaosAction list" where
  "loadActions w =
     (if os_IsNotExist (stateFile w) (fs w) then Inr []
      else case os_ReadFile (stateFile w) (fs w) of
        Inl err \<Rightarrow> Inl (Errorf ''failed to read state file: %w'' [Cause err])
      | Inr data \<Rightarrow>
          if data = Zero_Length then Inr []
          else case Unmarshal_actions data of
            Inl err \<Rightarrow> Inl (Errorf ''failed to unmarshal state file: %w'' [Cause err])
          | Inr actions \<Rightarrow> Inr actions)"

definition LoadActions :: "world \<Rightarrow> error + ChaosAction list" where
  "LoadActions w = loadActions w"


definition ClearActions :: "world \<Rightarrow> error option \<times> world" where
  "ClearActions w =
     (let dir = Dir (stateFile w)
      in case os_MkdirAll dir (fs w) of
        Some err \<Rightarrow> (Some (Errorf ''failed to create state directory: %w'' [Cause err]), w)
      | None \<Rightarrow>
          let data = MarshalIndent_actions []
          in case os_WriteFile (stateFile w) data (fs w) of
            (Some err, f) \<Rightarrow>
              (Some (Errorf ''failed to write empty state file: %w'' [Cause err]), w\<lparr>fs := f\<rparr>)
          | (None, f) \<Rightarrow> (None, w\<lparr>fs := f\<rparr>))"

text \<open>
  Modelled from the spec: \<^verbatim>\<open>state.DeleteAction\<close> is called by the rollback engine and
  by the tests of package \<^verbatim>\<open>state\<close>, but its source is not among the repository's
  files. The spec gives it as: under the mutex, a load, mutate, marshal, write cycle that
  removes the first entry that is deeply equal to the action across every field, and
  fails with a not-found error if no exact match exists; after a successful mutator the
  file is a JSON array of actions.
\<close>

definition DeepEqual :: "ChaosAction \<Rightarrow> ChaosAction \<Rightarrow> bool" where
  "DeepEqual a b =
     (Type a = Type b \<and> TargetPod a = TargetPod b \<and> Namespace a = Namespace b
      \<and> Timestamp a = Timestamp b \<and> Metadata a = Metadata b)"

fun remove_first :: "ChaosAction \<Rightarrow> ChaosAction list \<Rightarrow> ChaosAction list option" where
  "remove_first action [] = None"
| "remove_first action (a # rest) =
     (if DeepEqual a action then Some rest
      else case remove_first action rest of None \<Rightarrow> None | Some rest' \<Rightarrow> Some (a # rest'))"

definition DeleteAction :: "ChaosAction \<Rightarrow> world \<Rightarrow> error option \<times> world" where
  "DeleteAction action w =
     (case loadActions w of
        Inl err \<Rightarrow> (Some (Errorf ''failed to load existing actions: %w'' [Cause err]), w)
      | Inr actions \<Rightarrow>
          (case remove_first action actions of
             None \<Rightarrow> (Some (Errorf ''action not found'' []), w)
           | Some remaining \<Rightarrow>
               let data = MarshalIndent_actions remaining
               in case os_WriteFile (stateFile w) data (fs w) of
                 (Some err, f) \<Rightarrow>
                   (Some (Errorf ''failed to write state file: %w'' [Cause err]), w\<lparr>fs := f\<rparr>)
               | (None, f) \<Rightarrow> (None, w\<lparr>fs := f\<rparr>)))"

section \<open>Filtering the ledger (internal/rollback, filterActions)\<close>

text \<open>
  The loop of \<^verbatim>\<open>filterActions\<close>: \<open>filtered\<close> is the slice built so far, the two
  \<^verbatim>\<open>continue\<close> statements are the first two branches.
\<close>

fun filterActions_loop ::
  "ChaosAction list \<Rightarrow> string \<Rightarrow> string \<Rightarrow> ChaosAction list \<Rightarrow> ChaosAction list" where
  "filterActions_loop [] filterType filterPod filtered = filtered"
| "filterActions_loop (action # rest) filterType filterPod filtered =
     (if filterType \<noteq> '''' \<and> Type action \<noteq> filterType
        then filterActions_loop rest filterType filterPod filtered
      else if filterPod \<noteq> '''' \<and> TargetPod action \<noteq> filterPod
        then filterActions_loop rest filterType filterPod filtered
      else filterActions_loop rest filterType filterPod (filtered @ [action]))"

definition filterActions :: "ChaosAction list \<Rightarrow> string \<Rightarrow> string \<Rightarrow> ChaosAction list" where
  "filterActions actions filterType filterPod = filterActions_loop actions filterType filterPod []"


section \<open>The rollback engine (internal/rollback)\<close>

definition q :: string where
  "q = [CHR 0x27]"

definition removeEphemeralContainer ::
  "string \<Rightarrow> string \<Rightarrow> string \<Rightarrow> world \<Rightarrow> error option \<times> world" where
  "removeEphemeralContainer namespace podName containerName w =
     (case Pods_Get namespace podName (k8s w) of
        (Inl err, c) \<Rightarrow> (Some (Errorf ''failed to get pod: %w'' [Cause err]), w\<lparr>k8s := c\<rparr>)
      | (Inr pod, c) \<Rightarrow>
          let newEphemeralContainers =
                filter (\<lambda>container. Name container \<noteq> containerName) (pod_EphemeralContainers pod)
          in case Pods_Patch namespace podName StrategicMergePatchType newEphemeralContainers
                    ''ephemeralContainers'' c of
            (Inl err, c') \<Rightarrow>
              (Some (Errorf ''failed to remove ephemeral container: %w'' [Cause err]), w\<lparr>k8s := c'\<rparr>)
          | (Inr patched, c') \<Rightarrow>
              (None, Info (Sprintf (''Successfully removed ephemeral container '%s' from pod '%s'' @ q)
                             [Str containerName, Str podName]) (w\<lparr>k8s := c'\<rparr>)))"

text \<open>
  The loop over \<^verbatim>\<open>containersToRemove\<close>, which \<^verbatim>\<open>RevertTC\<close> and
  \<^verbatim>\<open>RemoveEphemeral\<close> both have, word for word: an error is a warning, and the
  loop goes on.
\<close>

fun removeContainers_loop :: "string \<Rightarrow> string \<Rightarrow> string list \<Rightarrow> world \<Rightarrow> world" where
  "removeContainers_loop namespace podName [] w = w"
| "removeContainers_loop namespace podName (containerName # rest) w =
     (case removeEphemeralContainer namespace podName containerName w of
        (Some err, w') \<Rightarrow>
          removeContainers_loop namespace podName rest
            (Warn (Sprintf ''Failed to remove ephemeral container '%s': %v'' [Str containerName, Cause err]) w')
      | (None, w') \<Rightarrow> removeContainers_loop namespace podName rest w')"

definition RevertTC :: "ChaosAction \<Rightarrow> bool \<Rightarrow> world \<Rightarrow> error option \<times> world" where
  "RevertTC action dryRun w0 =
     (let w = Info (Sprintf (''Reverting tc netem for pod '%s' in namespace '%s'' @ q)
                      [Str (TargetPod action), Str (Namespace action)]) w0
      in if dryRun then
           (None, DryRun (Sprintf (''Would remove ephemeral containers from pod '%s' to revert tc netem'')
                            [Str (TargetPod action)]) w)
         else case Pods_Get (Namespace action) (TargetPod action) (k8s w) of
           (Inl err, c) \<Rightarrow> (Some (Errorf ''failed to get pod: %w'' [Cause err]), w\<lparr>k8s := c\<rparr>)
         | (Inr pod, c) \<Rightarrow>
             let containersToRemove =
                   map Name (filter (\<lambda>container.
                       Contains (Name container) ''latency-injector''
                     \<or> Contains (Name container) ''packetloss-injector''
                     \<or> Contains (Name container) ''tipsy-'') (pod_EphemeralContainers pod))
             in if length containersToRemove = 0 then
                  (None, Info (Sprintf ''No ephemeral containers found to remove'' []) (w\<lparr>k8s := c\<rparr>))
                else
                  (None, Info (Sprintf (''Successfully reverted tc netem for pod '%s'' @ q)
                                 [Str (TargetPod action)])
                           (removeContainers_loop (Namespace action) (TargetPod action)
                              containersToRemove (w\<lparr>k8s := c\<rparr>))))"

definition RemoveEphemeral :: "ChaosAction \<Rightarrow> bool \<Rightarrow> world \<Rightarrow> error option \<times> world" where
  "RemoveEphemeral action dryRun w0 =
     (let w = Info (Sprintf (''Removing ephemeral containers from pod '%s' in namespace '%s'' @ q)
                      [Str (TargetPod action), Str (Namespace action)]) w0
      in if dryRun then
           (None, DryRun (Sprintf (''Would remove ephemeral containers from pod '%s'' @ q)
                            [Str (TargetPod action)]) w)
         else case Pods_Get (Namespace action) (TargetPod action) (k8s w) of
           (Inl err, c) \<Rightarrow> (Some (Errorf ''failed to get pod: %w'' [Cause err]), w\<lparr>k8s := c\<rparr>)
         | (Inr pod, c) \<Rightarrow>
             let containersToRemove =
                   map Name (filter (\<lambda>container.
                       Contains (Name container) ''tipsy-cpu-stress''
                     \<or> Contains (Name container) ''tipsy-'') (pod_EphemeralContainers pod))
             in if length containersToRemove = 0 then
                  (None, Info (Sprintf ''No ephemeral containers found to remove'' []) (w\<lparr>k8s := c\<rparr>))
                else
                  (None, Info (Sprintf (''Successfully removed ephemeral containers from pod '%s'' @ q)
                                 [Str (TargetPod action)])
                           (removeContainers_loop (Namespace action) (TargetPod action)
                              containersToRemove (w\<lparr>k8s := c\<rparr>))))"

definition metadata_lookup :: "ChaosAction \<Rightarrow> string \<Rightarrow> string option" where
  "metadata_lookup action key = (case Metadata action of None \<Rightarrow> None | Some m \<Rightarrow> m key)"

definition RestoreEndpoints :: "ChaosAction \<Rightarrow> bool \<Rightarrow> world \<Rightarrow> error option \<times> world" where
  "RestoreEndpoints action dryRun w0 =
     (let w = Info (Sprintf (''Restoring endpoints for service '%s' in namespace '%s'' @ q)
                      [Str (TargetPod action), Str (Namespace action)]) w0;
          found = (case metadata_lookup action ''backupPath'' of
                     Some path \<Rightarrow> Inr path
                   | None \<Rightarrow>
                      (case os_UserHomeDir (fs w) of
                         Inl err \<Rightarrow> Inl (Errorf ''failed to get user home directory: %w'' [Cause err])
                       | Inr home \<Rightarrow>
                           Inr (Join [home, ''.tipsy'', ''rollback'',
                                      TargetPod action @ ''_'' @ Namespace action @ ''.json''])))
      in case found of
        Inl err \<Rightarrow> (Some err, w)
      | Inr backupPath \<Rightarrow>
          if dryRun then
            (None, DryRun (Sprintf ''Would restore endpoints for service '%s' from backup: %s''
                             [Str (TargetPod action), Str backupPath]) w)
          else case os_ReadFile backupPath (fs w) of
            Inl err \<Rightarrow>
              (Some (Errorf ''failed to read backup file %s: %w'' [Str backupPath, Cause err]), w)
          | Inr backupData \<Rightarrow>
              (case Unmarshal_endpoints backupData of
                 Inl err \<Rightarrow>
                   (Some (Errorf ''failed to unmarshal backup endpoints: %w'' [Cause err]), w)
               | Inr backupEndpoints \<Rightarrow>
                   (case Endpoints_Update (Namespace action) backupEndpoints (k8s w) of
                      (Inl err, c) \<Rightarrow>
                        (Some (Errorf ''failed to restore endpoints: %w'' [Cause err]), w\<lparr>k8s := c\<rparr>)
                    | (Inr updated, c) \<Rightarrow>
                        let w1 = w\<lparr>k8s := c\<rparr>;
                            w2 = (case os_Remove backupPath (fs w1) of
                                    (Some err, f) \<Rightarrow>
                                      Warn (Sprintf ''Failed to remove backup file %s: %v''
                                              [Str backupPath, Cause err]) (w1\<lparr>fs := f\<rparr>)
                                  | (None, f) \<Rightarrow> w1\<lparr>fs := f\<rparr>)
                        in (None, Info (Sprintf (''Successfully restored endpoints for service '%s'' @ q)
                                          [Str (TargetPod action)]) w2))))"

definition handleKillAction :: "ChaosAction \<Rightarrow> bool \<Rightarrow> world \<Rightarrow> error option \<times> world" where
  "handleKillAction action dryRun w0 =
     (let w = Warn (Sprintf (''Cannot rollback kill action for pod '%s' in namespace '%s' - pod was permanently deleted'')
                      [Str (TargetPod action), Str (Namespace action)]) w0
      in (None,
          if dryRun then
            DryRun (Sprintf ''Would skip kill action for pod '%s' (cannot be rolled back)''
                      [Str (TargetPod action)]) w
          else w))"

definition rollbackAction :: "ChaosAction \<Rightarrow> bool \<Rightarrow> world \<Rightarrow> error option \<times> world" where
  "rollbackAction action dryRun w =
     (if Type action = ''latency'' \<or> Type action = ''packetloss'' then RevertTC action dryRun w
      else if Type action = ''cpustress'' then RemoveEphemeral action dryRun w
      else if Type action = ''misroute'' then RestoreEndpoints action dryRun w
      else if Type action = ''kill'' then handleKillAction action dryRun w
      else (Some (Errorf ''unknown action type: %s'' [Str (Type action)]), w))"

text \<open>
  The loop of \<^verbatim>\<open>RollbackAll\<close> over the filtered actions. Its state is the world and
  the loop's three variables: \<^verbatim>\<open>successCount\<close>, \<^verbatim>\<open>failureCount\<close> and
  \<^verbatim>\<open>failedActions\<close>.
\<close>

type_synonym rollback_state = "world \<times> nat \<times> nat \<times> ChaosAction list"

fun rollback_loop :: "bool \<Rightarrow> ChaosAction list \<Rightarrow> rollback_state \<Rightarrow> rollback_state" where
  "rollback_loop dryRun [] st = st"
| "rollback_loop dryRun (action # rest) (w0, successCount, failureCount, failedActions) =
     (let w = Info (Sprintf (''Rolling back %s action for pod '%s' in namespace '%s'' @ q)
                      [Str (Type action), Str (TargetPod action), Str (Namespace action)]) w0
      in case rollbackAction action dryRun w of
        (Some err, w1) \<Rightarrow>
          rollback_loop dryRun rest
            (Error (Sprintf ''Failed to rollback action: %v'' [Cause err]) w1,
             successCount, failureCount + 1, failedActions @ [action])
      | (None, w1) \<Rightarrow>
          let w2 = (if \<not> dryRun then
                      (case DeleteAction action w1 of
                         (Some err, w') \<Rightarrow>
                           Warn (Sprintf ''Failed to remove action from state: %v'' [Cause err]) w'
                       | (None, w') \<Rightarrow> w')
                    else w1)
          in rollback_loop dryRun rest (w2, successCount + 1, failureCount, failedActions))"

definition RollbackAll :: "bool \<Rightarrow> string \<Rightarrow> string \<Rightarrow> world \<Rightarrow> error option \<times> world" where
  "RollbackAll dryRun filterType filterPod w0 =
     (let w = Info (Sprintf ''Starting rollback operation'' []) w0
      in case LoadActions w of
        Inl err \<Rightarrow> (Some (Errorf ''failed to load actions from state: %w'' [Cause err]), w)
      | Inr actions \<Rightarrow>
          if length actions = 0 then (None, Info (Sprintf ''No actions found to rollback'' []) w)
          else
            let filteredActions = filterActions actions filterType filterPod
            in if length filteredActions = 0 then
                 (None, Info (Sprintf ''No actions match the specified filters'' []) w)
               else
                 let w1 = Info (Sprintf ''Found %d action(s) to rollback''
                                  [Num (int (length filteredActions))]) w
                 in case rollback_loop dryRun filteredActions (w1, 0, 0, []) of
                   (w2, successCount, failureCount, failedActions) \<Rightarrow>
                     (None,
                      if dryRun then
                        Info (Sprintf ''Dry run completed: %d action(s) would be rolled back''
                                [Num (int (length filteredActions))]) w2
                      else
                        let w3 = Info (Sprintf ''Rollback completed: %d successful, %d failed''
                                         [Num (int successCount), Num (int failureCount)]) w2
                        in if length failedActions > 0 then
                             Warn (Sprintf ''Failed to rollback %d action(s)''
                                     [Num (int (length failedActions))]) w3
                           else w3))"

section \<open>The kill executor (internal/chaos, KillPods)\<close>

text \<open>
  The sampling loop of \<^verbatim>\<open>KillPods\<close>. Each turn takes the next number drawn for
  \<^verbatim>\<open>rand.Intn(len(pods.Items))\<close>; \<open>usedIndices\<close> is the set of keys the Go map
  holds. The loop has no bound of its own: a run that has not filled
  \<open>selectedPods\<close> when the drawn numbers are used up has not returned, which is
  \<open>None\<close>. The result is the selection and the numbers not yet drawn.
\<close>

fun select_loop ::
  "Pod list \<Rightarrow> nat \<Rightarrow> nat list \<Rightarrow> nat set \<Rightarrow> string list \<Rightarrow> (string list \<times> nat list) option" where
  "select_loop items podsToKill [] usedIndices selectedPods =
     (if length selectedPods < podsToKill then None else Some (selectedPods, []))"
| "select_loop items podsToKill (d # rest) usedIndices selectedPods =
     (if length selectedPods < podsToKill then
        (let index = d mod length items
         in if index \<notin> usedIndices then
              select_loop items podsToKill rest (insert index usedIndices)
                (selectedPods @ [pod_Name (items ! index)])
            else select_loop items podsToKill rest usedIndices selectedPods)
      else Some (selectedPods, d # rest))"

fun dryRun_list :: "string list \<Rightarrow> world \<Rightarrow> world" where
  "dryRun_list [] w = w"
| "dryRun_list (podName # rest) w = dryRun_list rest (DryRun (Sprintf ''  - %s'' [Str podName]) w)"

fun delete_loop :: "string \<Rightarrow> string list \<Rightarrow> world \<Rightarrow> world" where
  "delete_loop namespace [] w = w"
| "delete_loop namespace (podName # rest) w0 =
     (let w = Info (Sprintf ''  Deleting pod: %s'' [Str podName]) w0
      in case Pods_Delete namespace podName (k8s w) of
        (Some err, c) \<Rightarrow>
          delete_loop namespace rest
            (Error (Sprintf ''Failed to delete pod '%s': %v'' [Str podName, Cause err]) (w\<lparr>k8s := c\<rparr>))
      | (None, c) \<Rightarrow>
          delete_loop namespace rest
            (Info (Sprintf ''  Successfully deleted pod: %s'' [Str podName]) (w\<lparr>k8s := c\<rparr>)))"

definition KillPods ::
  "string \<Rightarrow> string \<Rightarrow> int \<Rightarrow> bool \<Rightarrow> world \<Rightarrow> (error option \<times> world) option" where
  "KillPods namespace selector count dryRun w0 =
     (let w = Info (Sprintf (''Searching for pods with selector '%s' in namespace '%s'' @ q)
                      [Str selector, Str namespace]) w0
      in case Pods_List namespace selector (k8s w) of
        (Inl err, c) \<Rightarrow> Some (Some (Errorf ''failed to list pods: %w'' [Cause err]), w\<lparr>k8s := c\<rparr>)
      | (Inr items, c) \<Rightarrow>
          let w1 = w\<lparr>k8s := c\<rparr>
          in if length items = 0 then
               Some (None, Warn (Sprintf (''No pods found matching selector '%s' in namespace '%s'' @ q)
                                   [Str selector, Str namespace]) w1)
             else
               let w2 = Info (Sprintf ''Found %d pod(s) matching selector'' [Num (int (length items))]) w1;
                   podsToKill = (if count \<le> 0 then 0
                                 else if int (length items) < count then length items
                                 else nat count);
                   w3 = (if count \<le> 0 then
                           Warn (Sprintf ''Invalid count %d, no pods will be deleted'' [Num count]) w2
                         else if int (length items) < count then
                           Warn (Sprintf ''Only %d pods available, limiting kill count to %d''
                                   [Num (int (length items)), Num (int podsToKill)]) w2
                         else w2)
               in case select_loop items podsToKill (draws w3) {} [] of
                 None \<Rightarrow> None
               | Some (selectedPods, rest) \<Rightarrow>
                   let w4 = w3\<lparr>draws := rest\<rparr>
                   in if dryRun then
                        Some (None, dryRun_list selectedPods
                                (DryRun (Sprintf ''Would delete %d pod(s):''
                                           [Num (int (length selectedPods))]) w4))
                      else
                        Some (None, delete_loop namespace selectedPods
                                (Info (Sprintf ''Deleting %d pod(s):''
                                         [Num (int (length selectedPods))]) w4)))"

section \<open>The fault injectors (internal/chaos: latency, packet loss, CPU stress)\<close>

text \<open>\<^verbatim>\<open>int(duration.Seconds())\<close>: whole seconds of a duration in nanoseconds, towards zero.\<close>

definition Seconds_int :: "int \<Rightarrow> int" where
  "Seconds_int d = (if 0 \<le> d then d div 1000000000 else - ((- d) div 1000000000))"

definition getMainProcessName :: string where
  "getMainProcessName =
     (let commonProcesses = [''nginx'', ''apache2'', ''httpd'', ''node'', ''python'', ''java'', ''go'', ''main'']
      in commonProcesses ! 0)"

text \<open>
  The shell scripts' format strings, line by line (a line feed before each line; the tabs
  that indent the lines in the source are left out).
\<close>

definition script :: "string list \<Rightarrow> string" where
  "script ls = concat (map (\<lambda>l. CHR 0x0A # l) ls)"

definition latency_script :: string where
  \<open>latency_script = script
     [''# Find the main container's PID'',
      ''MAIN_PID=$(ps -o pid= -C %s 2>/dev/null | head -1)'',
      ''if [ -z "$MAIN_PID" ]; then'',
      ''# Fallback: find any process in the container'',
      ''MAIN_PID=1'',
      ''fi'',
      [],
      ''# Apply network delay using tc netem'',
      ''nsenter -t $MAIN_PID -n tc qdisc add dev eth0 root netem delay %s'',
      [],
      ''# Wait for the specified duration'',
      ''sleep %d'',
      [],
      ''# Clean up: remove the netem rule'',
      ''nsenter -t $MAIN_PID -n tc qdisc del dev eth0 root netem delay %s 2>/dev/null || true'',
      []]\<close>

definition packetloss_script :: string where
  \<open>packetloss_script = script
     [''# Find the main container's PID'',
      ''MAIN_PID=$(ps -o pid= -C %s 2>/dev/null | head -1)'',
      ''if [ -z "$MAIN_PID" ]; then'',
      ''# Fallback: find any process in the container'',
      ''MAIN_PID=1'',
      ''fi'',
      [],
      ''# Apply network packet loss using tc netem'',
      ''nsenter -t $MAIN_PID -n tc qdisc add dev eth0 root netem loss %s'',
      [],
      ''# Wait for the specified duration'',
      ''sleep %d'',
      [],
      ''# Clean up: remove the netem rule'',
      ''nsenter -t $MAIN_PID -n tc qdisc del dev eth0 root netem loss %s 2>/dev/null || true'',
      []]\<close>

text \<open>
  \<^verbatim>\<open>marshalEphemeralContainer\<close> writes the JSON object of the patch by hand: the
  container's name and image, the command \<^verbatim>\<open>["sh", "-c", Command[2]]\<close> and a fixed
  security context, and no other field. The result is that object (the escaping of the
  command string is what makes the JSON text carry it). \<^verbatim>\<open>Command[2]\<close> panics on
  a shorter command: \<open>None\<close>.
\<close>

definition marshalEphemeralContainer :: "EphemeralContainer \<Rightarrow> EphemeralContainer option" where
  "marshalEphemeralContainer container =
     (if length (Command container) \<le> 2 then None
      else Some \<lparr>Name = Name container, Image = Image container,
                  Command = [Sprintf ''sh'' [], Sprintf ''-c'' [], Command container ! 2],
                  Resources = None,
                  SecurityContext = Some \<lparr>Privileged = True,
                                          Capabilities_Add = [''NET_ADMIN'', ''SYS_PTRACE'']\<rparr>\<rparr>)"

text \<open>
  \<^verbatim>\<open>marshalCPUStressEphemeralContainer\<close>: name, image, the whole command and a
  fixed \<^verbatim>\<open>resources\<close> object, and no other field.
\<close>

definition marshalCPUStressEphemeralContainer :: "EphemeralContainer \<Rightarrow> EphemeralContainer" where
  "marshalCPUStressEphemeralContainer container =
     \<lparr>Name = Name container, Image = Image container, Command = Command container,
      Resources = Some \<lparr>Requests = [(''cpu'', ''100m''), (''memory'', ''64Mi'')],
                         Limits = [(''cpu'', ''500m''), (''memory'', ''128Mi'')]\<rparr>,
      SecurityContext = None\<rparr>"

text \<open>
  The three per-pod injectors. The goroutine each starts after a successful patch only
  sleeps and then logs; it is detached and is left out.
\<close>

definition injectLatencyToPod ::
  "string \<Rightarrow> string \<Rightarrow> string \<Rightarrow> int \<Rightarrow> bool \<Rightarrow> world \<Rightarrow> error option \<times> world" where
  "injectLatencyToPod namespace podName delay duration dryRun w0 =
     (let w = Info (Sprintf (''Injecting latency to pod '%s' with delay '%s' for duration '%s'' @ q)
                      [Str podName, Str delay, Dur duration]) w0
      in if dryRun then
           (None,
            DryRun (Sprintf ''  - Duration: %s'' [Dur duration])
              (DryRun (Sprintf ''  - Command: nsenter -t <pid> -n tc qdisc add dev eth0 root netem delay %s''
                         [Str delay])
                 (DryRun (Sprintf ''  - Add ephemeral container with image: ghcr.io/chaos-tools/netem:latest'' [])
                    (DryRun (Sprintf ''Would inject latency to pod '%s':'' [Str podName]) w))))
         else
           let ephemeralContainer =
                 \<lparr>Name = ''latency-injector-'' @ Itoa (Unix (clock w)),
                  Image = ''ghcr.io/chaos-tools/netem:latest'',
                  Command = [Sprintf ''sh'' [], Sprintf ''-c'' [],
                             Sprintf latency_script
                               [Str getMainProcessName, Str delay, Num (Seconds_int duration), Str delay]],
                  Resources = None,
                  SecurityContext = Some \<lparr>Privileged = True,
                                          Capabilities_Add = [''NET_ADMIN'', ''SYS_PTRACE'']\<rparr>\<rparr>
           in case marshalEphemeralContainer ephemeralContainer of
             None \<Rightarrow> (Some (Panic ''index out of range''), w)
           | Some body \<Rightarrow>
               (case Pods_Patch namespace podName StrategicMergePatchType [body]
                       ''ephemeralContainers'' (k8s w) of
                  (Inl err, c) \<Rightarrow>
                    (Some (Errorf ''failed to add ephemeral container: %w'' [Cause err]), w\<lparr>k8s := c\<rparr>)
                | (Inr patched, c) \<Rightarrow>
                    (None, Info (Sprintf (''Successfully added ephemeral container to pod '%s'' @ q)
                                   [Str podName]) (w\<lparr>k8s := c\<rparr>))))"

definition injectPacketLossToPod ::
  "string \<Rightarrow> string \<Rightarrow> string \<Rightarrow> int \<Rightarrow> bool \<Rightarrow> world \<Rightarrow> error option \<times> world" where
  "injectPacketLossToPod namespace podName loss duration dryRun w0 =
     (let w = Info (Sprintf (''Injecting packet loss to pod '%s' with loss '%s' for duration '%s'' @ q)
                      [Str podName, Str loss, Dur duration]) w0
      in if dryRun then
           (None,
            DryRun (Sprintf ''  - Duration: %s'' [Dur duration])
              (DryRun (Sprintf ''  - Command: nsenter -t <pid> -n tc qdisc add dev eth0 root netem loss %s''
                         [Str loss])
                 (DryRun (Sprintf ''  - Add ephemeral container with image: ghcr.io/chaos-tools/netem:latest'' [])
                    (DryRun (Sprintf ''Would inject packet loss to pod '%s':'' [Str podName]) w))))
         else
           let ephemeralContainer =
                 \<lparr>Name = ''packetloss-injector-'' @ Itoa (Unix (clock w)),
                  Image = ''ghcr.io/chaos-tools/netem:latest'',
                  Command = [Sprintf ''sh'' [], Sprintf ''-c'' [],
                             Sprintf packetloss_script
                               [Str getMainProcessName, Str loss, Num (Seconds_int duration), Str loss]],
                  Resources = None,
                  SecurityContext = Some \<lparr>Privileged = True,
                                          Capabilities_Add = [''NET_ADMIN'', ''SYS_PTRACE'']\<rparr>\<rparr>
           in case marshalEphemeralContainer ephemeralContainer of
             None \<Rightarrow> (Some (Panic ''index out of range''), w)
           | Some body \<Rightarrow>
               (case Pods_Patch namespace podName StrategicMergePatchType [body]
                       ''ephemeralContainers'' (k8s w) of
                  (Inl err, c) \<Rightarrow>
                    (Some (Errorf ''failed to add ephemeral container: %w'' [Cause err]), w\<lparr>k8s := c\<rparr>)
                | (Inr patched, c) \<Rightarrow>
                    (None, Info (Sprintf (''Successfully added ephemeral container to pod '%s'' @ q)
                                   [Str podName]) (w\<lparr>k8s := c\<rparr>))))"

text \<open>The \<^verbatim>\<open>switch method\<close> of \<^verbatim>\<open>injectCPUStressToPod\<close>: image and command.\<close>

definition cpustress_method :: "string \<Rightarrow> int \<Rightarrow> error + (string \<times> message list)" where
  "cpustress_method method duration =
     (if method = ''stress-ng'' then
        Inr (''ghcr.io/chaos-tools/stress-ng:latest'',
             [Sprintf ''stress-ng'' [], Sprintf ''--cpu'' [], Sprintf ''1'' [], Sprintf ''--timeout'' [],
              Sprintf ''%.0fs'' [Secs duration]])
      else if method = ''yes'' then
        Inr (''alpine'',
             [Sprintf ''sh'' [], Sprintf ''-c'' [],
              Sprintf ''yes > /dev/null & sleep %d'' [Num (Seconds_int duration)]])
      else Inl (Errorf ''unsupported method: %s'' [Str method]))"

definition injectCPUStressToPod ::
  "string \<Rightarrow> string \<Rightarrow> string \<Rightarrow> int \<Rightarrow> bool \<Rightarrow> world \<Rightarrow> error option \<times> world" where
  "injectCPUStressToPod namespace podName method duration dryRun w0 =
     (let w = Info (Sprintf (''Injecting CPU stress to pod '%s' using method '%s' for duration '%s'' @ q)
                      [Str podName, Str method, Dur duration]) w0
      in case cpustress_method method duration of
        Inl err \<Rightarrow> (Some err, w)
      | Inr (img, command) \<Rightarrow>
          if dryRun then
            (None,
             DryRun (Sprintf ''  - Duration: %s'' [Dur duration])
               (DryRun (Sprintf ''  - Command: %s'' [Joined command '' ''])
                  (DryRun (Sprintf ''  - Add ephemeral container with image: %s'' [Str img])
                     (DryRun (Sprintf ''Would inject CPU stress to pod '%s':'' [Str podName]) w))))
          else
            let ephemeralContainer =
                  \<lparr>Name = ''tipsy-cpu-stress-'' @ Itoa (Unix (clock w)),
                   Image = img,
                   Command = command,
                   Resources = Some \<lparr>Requests = [(''cpu'', ''100m''), (''memory'', ''64Mi'')],
                                      Limits = [(''cpu'', ''500m''), (''memory'', ''128Mi'')]\<rparr>,
                   SecurityContext = None\<rparr>
            in case Pods_Patch namespace podName StrategicMergePatchType
                      [marshalCPUStressEphemeralContainer ephemeralContainer]
                      ''ephemeralContainers'' (k8s w) of
              (Inl err, c) \<Rightarrow>
                (Some (Errorf ''failed to add ephemeral container: %w'' [Cause err]), w\<lparr>k8s := c\<rparr>)
            | (Inr patched, c) \<Rightarrow>
                (None, Info (Sprintf (''Successfully added ephemeral container to pod '%s'' @ q)
                               [Str podName]) (w\<lparr>k8s := c\<rparr>)))"

text \<open>The loops over \<^verbatim>\<open>pods.Items\<close> of the three injectors.\<close>

fun InjectLatency_loop :: "string \<Rightarrow> string \<Rightarrow> int \<Rightarrow> bool \<Rightarrow> Pod list \<Rightarrow> world \<Rightarrow> world" where
  "InjectLatency_loop namespace delay duration dryRun [] w = w"
| "InjectLatency_loop namespace delay duration dryRun (pod # rest) w =
     (if pod_Phase pod \<noteq> PodRunning then
        InjectLatency_loop namespace delay duration dryRun rest
          (Warn (Sprintf ''Skipping pod '%s' - not in Running state (current: %s)''
                   [Str (pod_Name pod), Str (pod_Phase pod)]) w)
      else case injectLatencyToPod namespace (pod_Name pod) delay duration dryRun w of
        (Some err, w') \<Rightarrow>
          InjectLatency_loop namespace delay duration dryRun rest
            (Error (Sprintf ''Failed to inject latency to pod '%s': %v'' [Str (pod_Name pod), Cause err]) w')
      | (None, w') \<Rightarrow> InjectLatency_loop namespace delay duration dryRun rest w')"

fun InjectPacketLoss_loop :: "string \<Rightarrow> string \<Rightarrow> int \<Rightarrow> bool \<Rightarrow> Pod list \<Rightarrow> world \<Rightarrow> world" where
  "InjectPacketLoss_loop namespace loss duration dryRun [] w = w"
| "InjectPacketLoss_loop namespace loss duration dryRun (pod # rest) w =
     (if pod_Phase pod \<noteq> PodRunning then
        InjectPacketLoss_loop namespace loss duration dryRun rest
          (Warn (Sprintf ''Skipping pod '%s' - not in Running state (current: %s)''
                   [Str (pod_Name pod), Str (pod_Phase pod)]) w)
      else case injectPacketLossToPod namespace (pod_Name pod) loss duration dryRun w of
        (Some err, w') \<Rightarrow>
          InjectPacketLoss_loop namespace loss duration dryRun rest
            (Error (Sprintf ''Failed to inject packet loss to pod '%s': %v'' [Str (pod_Name pod), Cause err]) w')
      | (None, w') \<Rightarrow> InjectPacketLoss_loop namespace loss duration dryRun rest w')"

fun InjectCPUStress_loop :: "string \<Rightarrow> string \<Rightarrow> int \<Rightarrow> bool \<Rightarrow> Pod list \<Rightarrow> world \<Rightarrow> world" where
  "InjectCPUStress_loop namespace method duration dryRun [] w = w"
| "InjectCPUStress_loop namespace method duration dryRun (pod # rest) w =
     (if pod_Phase pod \<noteq> PodRunning then
        InjectCPUStress_loop namespace method duration dryRun rest
          (Warn (Sprintf ''Skipping pod '%s' - not in Running state (current: %s)''
                   [Str (pod_Name pod), Str (pod_Phase pod)]) w)
      else case injectCPUStressToPod namespace (pod_Name pod) method duration dryRun w of
        (Some err, w') \<Rightarrow>
          InjectCPUStress_loop namespace method duration dryRun rest
            (Error (Sprintf ''Failed to inject CPU stress to pod '%s': %v'' [Str (pod_Name pod), Cause err]) w')
      | (None, w') \<Rightarrow> InjectCPUStress_loop namespace method duration dryRun rest w')"

definition InjectLatency ::
  "string \<Rightarrow> string \<Rightarrow> string \<Rightarrow> int \<Rightarrow> bool \<Rightarrow> world \<Rightarrow> error option \<times> world" where
  "InjectLatency namespace selector delay duration dryRun w0 =
     (let w = Info (Sprintf (''Searching for pods with selector '%s' in namespace '%s'' @ q)
                      [Str selector, Str namespace]) w0
      in case Pods_List namespace selector (k8s w) of
        (Inl err, c) \<Rightarrow> (Some (Errorf ''failed to list pods: %w'' [Cause err]), w\<lparr>k8s := c\<rparr>)
      | (Inr items, c) \<Rightarrow>
          if length items = 0 then
            (None, Warn (Sprintf (''No pods found matching selector '%s' in namespace '%s'' @ q)
                           [Str selector, Str namespace]) (w\<lparr>k8s := c\<rparr>))
          else
            (None, InjectLatency_loop namespace delay duration dryRun items
                     (Info (Sprintf ''Found %d pod(s) matching selector'' [Num (int (length items))])
                        (w\<lparr>k8s := c\<rparr>))))"

definition InjectPacketLoss ::
  "string \<Rightarrow> string \<Rightarrow> string \<Rightarrow> int \<Rightarrow> bool \<Rightarrow> world \<Rightarrow> error option \<times> world" where
  "InjectPacketLoss namespace selector loss duration dryRun w0 =
     (let w = Info (Sprintf (''Searching for pods with selector '%s' in namespace '%s'' @ q)
                      [Str selector, Str namespace]) w0
      in case Pods_List namespace selector (k8s w) of
        (Inl err, c) \<Rightarrow> (Some (Errorf ''failed to list pods: %w'' [Cause err]), w\<lparr>k8s := c\<rparr>)
      | (Inr items, c) \<Rightarrow>
          if length items = 0 then
            (None, Warn (Sprintf (''No pods found matching selector '%s' in namespace '%s'' @ q)
                           [Str selector, Str namespace]) (w\<lparr>k8s := c\<rparr>))
          else
            (None, InjectPacketLoss_loop namespace loss duration dryRun items
                     (Info (Sprintf ''Found %d pod(s) matching selector'' [Num (int (length items))])
                        (w\<lparr>k8s := c\<rparr>))))"

definition InjectCPUStress ::
  "string \<Rightarrow> string \<Rightarrow> string \<Rightarrow> int \<Rightarrow> bool \<Rightarrow> world \<Rightarrow> error option \<times> world" where
  "InjectCPUStress namespace selector method duration dryRun w0 =
     (let w = Info (Sprintf (''Searching for pods with selector '%s' in namespace '%s'' @ q)
                      [Str selector, Str namespace]) w0
      in case Pods_List namespace selector (k8s w) of
        (Inl err, c) \<Rightarrow> (Some (Errorf ''failed to list pods: %w'' [Cause err]), w\<lparr>k8s := c\<rparr>)
      | (Inr items, c) \<Rightarrow>
          if length items = 0 then
            (None, Warn (Sprintf (''No pods found matching selector '%s' in namespace '%s'' @ q)
                           [Str selector, Str namespace]) (w\<lparr>k8s := c\<rparr>))
          else
            (None, InjectCPUStress_loop namespace method duration dryRun items
                     (Info (Sprintf ''Found %d pod(s) matching selector'' [Num (int (length items))])
                        (w\<lparr>k8s := c\<rparr>))))"

section \<open>The endpoint misrouter (internal/chaos, MisrouteService)\<close>

text \<open>The inner loop over \<^verbatim>\<open>pod.Status.Conditions\<close>, with its \<^verbatim>\<open>break\<close>.\<close>

fun isReady_loop :: "(PodConditionType \<times> ConditionStatus) list \<Rightarrow> bool" where
  "isReady_loop [] = False"
| "isReady_loop (condition # rest) =
     (if fst condition = PodReady \<and> snd condition = ConditionTrue then True
      else isReady_loop rest)"

text \<open>
  The loop over the pods of \<^verbatim>\<open>buildEndpointSubsetsFromPods\<close>, which fills
  \<^verbatim>\<open>readyAddresses\<close> and \<^verbatim>\<open>notReadyAddresses\<close>.
\<close>

fun addresses_loop ::
  "Pod list \<Rightarrow> EndpointAddress list \<Rightarrow> EndpointAddress list
     \<Rightarrow> EndpointAddress list \<times> EndpointAddress list" where
  "addresses_loop [] readyAddresses notReadyAddresses = (readyAddresses, notReadyAddresses)"
| "addresses_loop (pod # rest) readyAddresses notReadyAddresses =
     (if pod_Phase pod \<noteq> PodRunning \<or> pod_PodIP pod = '''' then
        addresses_loop rest readyAddresses notReadyAddresses
      else
        let address = \<lparr>IP = pod_PodIP pod,
                       TargetRef = Some \<lparr>ref_Kind = ''Pod'', ref_Namespace = pod_Namespace pod,
                                         ref_Name = pod_Name pod, ref_UID = pod_UID pod\<rparr>\<rparr>;
            isReady = isReady_loop (pod_Conditions pod)
        in if isReady then addresses_loop rest (readyAddresses @ [address]) notReadyAddresses
           else addresses_loop rest readyAddresses (notReadyAddresses @ [address]))"

definition buildEndpointSubsetsFromPods ::
  "Pod list \<Rightarrow> ServicePort list \<Rightarrow> error + EndpointSubset list" where
  "buildEndpointSubsetsFromPods podList servicePorts =
     (if length servicePorts = 0 then Inr []
      else
        case addresses_loop podList [] [] of
          (readyAddresses, notReadyAddresses) \<Rightarrow>
            let ports = map (\<lambda>servicePort.
                               \<lparr>port_Name = sp_Name servicePort, port_Port = sp_Port servicePort,
                                port_Protocol = sp_Protocol servicePort\<rparr>) servicePorts;
                subsets0 = [];
                subsets1 = (if length readyAddresses > 0 then
                              subsets0 @ [\<lparr>Addresses = readyAddresses, NotReadyAddresses = [],
                                           Ports = ports\<rparr>]
                            else subsets0);
                subsets2 = (if length notReadyAddresses > 0 then
                              subsets1 @ [\<lparr>Addresses = [], NotReadyAddresses = notReadyAddresses,
                                           Ports = ports\<rparr>]
                            else subsets1)
            in Inr subsets2)"

definition saveOriginalEndpoints :: "Endpoints \<Rightarrow> string \<Rightarrow> string \<Rightarrow> world \<Rightarrow> error option \<times> world" where
  "saveOriginalEndpoints eps svcName namespace w =
     (case os_UserHomeDir (fs w) of
        Inl err \<Rightarrow> (Some (Errorf ''failed to get user home directory: %w'' [Cause err]), w)
      | Inr home \<Rightarrow>
          let rollbackDir = Join [home, ''.tipsy'', ''rollback'']
          in case os_MkdirAll rollbackDir (fs w) of
            Some err \<Rightarrow> (Some (Errorf ''failed to create rollback directory: %w'' [Cause err]), w)
          | None \<Rightarrow>
              let filename = svcName @ ''_'' @ namespace @ ''.json'';
                  filepath = Join [rollbackDir, filename];
                  data = MarshalIndent_endpoints eps
              in case os_WriteFile filepath data (fs w) of
                (Some err, f) \<Rightarrow>
                  (Some (Errorf ''failed to write endpoints to file: %w'' [Cause err]), w\<lparr>fs := f\<rparr>)
              | (None, f) \<Rightarrow>
                  (None, Info (Sprintf ''Saved original endpoints to %s for rollback'' [Str filepath])
                           (w\<lparr>fs := f\<rparr>)))"

text \<open>The dry-run loop that logs one line for each subset.\<close>

fun dryRun_subsets :: "nat \<Rightarrow> EndpointSubset list \<Rightarrow> world \<Rightarrow> world" where
  "dryRun_subsets i [] w = w"
| "dryRun_subsets i (s # rest) w =
     dryRun_subsets (i + 1) rest
       (DryRun (Sprintf ''    Subset %d: %d addresses, %d ports''
                  [Num (int i + 1), Num (int (length (Addresses s))),
                   Num (int (length (Ports s)))]) w)"

definition MisrouteService ::
  "string \<Rightarrow> string \<Rightarrow> string \<Rightarrow> bool \<Rightarrow> bool \<Rightarrow> world \<Rightarrow> error option \<times> world" where
  "MisrouteService svcName namespace replaceSelector removeAll_flag dryRun w0 =
     (let w = Info (Sprintf (''Starting misroute operation for service '%s' in namespace '%s'' @ q)
                      [Str svcName, Str namespace]) w0
      in case Services_Get namespace svcName (k8s w) of
        (Inl err, c) \<Rightarrow>
          (Some (Errorf ''failed to get service '%s': %w'' [Str svcName, Cause err]), w\<lparr>k8s := c\<rparr>)
      | (Inr service, c) \<Rightarrow>
          let w1 = Info (Sprintf ''Found service '%s' with %d ports''
                           [Str svcName, Num (int (length (svc_Ports service)))]) (w\<lparr>k8s := c\<rparr>)
          in case Endpoints_Get namespace svcName (k8s w1) of
            (Inl err, c1) \<Rightarrow>
              (Some (Errorf ''failed to get endpoints for service '%s': %w'' [Str svcName, Cause err]),
               w1\<lparr>k8s := c1\<rparr>)
          | (Inr eps, c1) \<Rightarrow>
              let w2 = w1\<lparr>k8s := c1\<rparr>;
                  w3 = (if \<not> dryRun then
                          (case saveOriginalEndpoints eps svcName namespace w2 of
                             (Some err, w') \<Rightarrow>
                               Warn (Sprintf ''Failed to save original endpoints for rollback: %v''
                                       [Cause err]) w'
                           | (None, w') \<Rightarrow> w')
                        else w2);
                  modifiedEndpoints = eps;
                  built =
                    (if removeAll_flag then
                       (Inr (modifiedEndpoints\<lparr>Subsets := []\<rparr>),
                        Info (Sprintf ''Removing all endpoint subsets'' []) w3)
                     else if replaceSelector \<noteq> '''' then
                       (let w4 = Info (Sprintf (''Replacing endpoints with pods matching selector '%s'' @ q)
                                         [Str replaceSelector]) w3
                        in case Pods_List namespace replaceSelector (k8s w4) of
                          (Inl err, c2) \<Rightarrow>
                            (Inl (Errorf ''failed to list pods with selector '%s': %w''
                                    [Str replaceSelector, Cause err]), w4\<lparr>k8s := c2\<rparr>)
                        | (Inr items, c2) \<Rightarrow>
                            if length items = 0 then
                              (Inr (modifiedEndpoints\<lparr>Subsets := []\<rparr>),
                               Warn (Sprintf (''No pods found matching selector '%s' in namespace '%s'' @ q)
                                       [Str replaceSelector, Str namespace]) (w4\<lparr>k8s := c2\<rparr>))
                            else
                              let w5 = Info (Sprintf ''Found %d pod(s) matching selector''
                                               [Num (int (length items))]) (w4\<lparr>k8s := c2\<rparr>)
                              in case buildEndpointSubsetsFromPods items (svc_Ports service) of
                                Inl err \<Rightarrow>
                                  (Inl (Errorf ''failed to build endpoint subsets from pods: %w''
                                          [Cause err]), w5)
                              | Inr newSubsets \<Rightarrow>
                                  (Inr (modifiedEndpoints\<lparr>Subsets := newSubsets\<rparr>), w5))
                     else (Inr modifiedEndpoints, w3))
              in case built of
                (Inl err, w6) \<Rightarrow> (Some err, w6)
              | (Inr modified, w6) \<Rightarrow>
                  if dryRun then
                    (let w7 = DryRun (Sprintf (''Would update endpoints for service '%s':'')
                                        [Str svcName]) w6
                     in if length (Subsets modified) = 0 then
                          (None, DryRun (Sprintf ''  - Remove all endpoint subsets (no traffic routing)'' []) w7)
                        else
                          (None, dryRun_subsets 0 (Subsets modified)
                                   (DryRun (Sprintf ''  - Replace with %d endpoint subset(s)''
                                              [Num (int (length (Subsets modified)))]) w7)))
                  else
                    (case Endpoints_Update namespace modified (k8s w6) of
                       (Inl err, c3) \<Rightarrow>
                         (Some (Errorf ''failed to update endpoints: %w'' [Cause err]), w6\<lparr>k8s := c3\<rparr>)
                     | (Inr updated, c3) \<Rightarrow>
                         (None, Info (Sprintf ''Successfully updated service endpoints'' [])
                                  (w6\<lparr>k8s := c3\<rparr>))))"

section \<open>Example data\<close>

text \<open>
  An API server that applies a patch of ephemeral containers as a strategic merge with
  the merge key \<^verbatim>\<open>name\<close>: the body's containers of a new name are added to the
  pod's list, a container the pod already has may be named again unchanged, and a
  container of the pod is neither changed nor removed.
\<close>

definition merge_by_name :: "Pod \<Rightarrow> EphemeralContainer list \<Rightarrow> error + Pod" where
  "merge_by_name p body =
     (if list_ex (\<lambda>b. list_ex (\<lambda>e. Name e = Name b \<and> e \<noteq> b) (pod_EphemeralContainers p)) body
      then Inl (InvalidError ''existing ephemeral containers may not be changed'')
      else Inr (p\<lparr>pod_EphemeralContainers :=
                     pod_EphemeralContainers p
                     @ filter (\<lambda>b. \<not> list_ex (\<lambda>e. Name e = Name b) (pod_EphemeralContainers p)) body\<rparr>))"

text \<open>An empty cluster, an empty disk, and the first second of 2023.\<close>

definition cluster0 :: cluster where
  "cluster0 =
     \<lparr>pods = [], services = [], endpoints = [], matches = (\<lambda>selector p. True),
      apply_patch = merge_by_name, requests = [], faults = []\<rparr>"

definition clock0 :: Time where
  "clock0 = \<lparr>Year = 2023, Month = 1, Day = 1, Hour = 0, Minute = 0, Second = 0, Unix = 1672531200\<rparr>"

definition world0 :: world where
  "world0 =
     \<lparr>fs = \<lparr>files = Map.empty, failing = [], homeDir = Some ''/home/user''\<rparr>,
      k8s = cluster0, logged = [], stateFile = ''/home/user/.tipsy/state.json'',
      GlobalConfig_DryRun = False, clock = clock0, draws = []\<rparr>"

text \<open>The world with given bytes in the ledger file.\<close>

definition with_ledger :: "file_data \<Rightarrow> world \<Rightarrow> world" where
  "with_ledger data w =
     w\<lparr>fs := (fs w)\<lparr>files := (files (fs w))(stateFile w \<mapsto> File True data)\<rparr>\<rparr>"

text \<open>The actions of \<^verbatim>\<open>TestSaveActionWithTimestamp\<close> and \<^verbatim>\<open>TestDeleteActionWithExactMatch\<close>.\<close>

definition action_no_timestamp :: ChaosAction where
  "action_no_timestamp =
     \<lparr>Type = ''latency'', TargetPod = ''test-pod'', Namespace = ''default'', Timestamp = [],
      Metadata = Some [''delay'' \<mapsto> ''200ms'']\<rparr>"

definition action1 :: ChaosAction where
  "action1 =
     \<lparr>Type = ''latency'', TargetPod = ''pod-1'', Namespace = ''default'',
      Timestamp = ''2023-01-01T00:00:00Z'', Metadata = Some [''delay'' \<mapsto> ''200ms'']\<rparr>"

definition action2 :: ChaosAction where
  "action2 = action1\<lparr>Timestamp := ''2023-01-01T00:01:00Z''\<rparr>"

text \<open>The ledger of \<^verbatim>\<open>TestFilterActions\<close>.\<close>

definition action_latency_pod1 :: ChaosAction where
  "action_latency_pod1 =
     \<lparr>Type = ''latency'', TargetPod = ''pod1'', Namespace = ''default'', Timestamp = '''',
      Metadata = None\<rparr>"

definition action_cpustress_pod2 :: ChaosAction where
  "action_cpustress_pod2 =
     \<lparr>Type = ''cpustress'', TargetPod = ''pod2'', Namespace = ''default'', Timestamp = '''',
      Metadata = None\<rparr>"

definition action_latency_pod3 :: ChaosAction where
  "action_latency_pod3 =
     \<lparr>Type = ''latency'', TargetPod = ''pod3'', Namespace = ''production'', Timestamp = '''',
      Metadata = None\<rparr>"

definition action_misroute_service1 :: ChaosAction where
  "action_misroute_service1 =
     \<lparr>Type = ''misroute'', TargetPod = ''service1'', Namespace = ''default'', Timestamp = '''',
      Metadata = None\<rparr>"

definition test_actions :: "ChaosAction list" where
  "test_actions =
     [action_latency_pod1, action_cpustress_pod2, action_latency_pod3, action_misroute_service1]"



text \<open>A kill action, an action of an unknown type, and a ledger that holds the two.\<close>

definition action_kill :: ChaosAction where
  "action_kill =
     \<lparr>Type = ''kill'', TargetPod = ''test-pod'', Namespace = ''default'',
      Timestamp = ''2023-01-01T00:00:00Z'', Metadata = None\<rparr>"

definition action_bogus :: ChaosAction where
  "action_bogus =
     \<lparr>Type = ''unknown'', TargetPod = ''test-pod'', Namespace = ''default'',
      Timestamp = ''2023-01-01T00:02:00Z'', Metadata = None\<rparr>"

definition world_kill_bogus :: world where
  "world_kill_bogus = with_ledger (MarshalIndent_actions [action_kill, action_bogus]) world0"

text \<open>
  The pod of \<^verbatim>\<open>TestRevertTC\<close>, a latency action on it, and a world whose ledger
  holds that action and whose API server fails the third request it gets.
\<close>

definition container_named :: "string \<Rightarrow> EphemeralContainer" where
  "container_named n =
     \<lparr>Name = n, Image = [], Command = [], Resources = None, SecurityContext = None\<rparr>"

definition test_pod :: Pod where
  "test_pod =
     \<lparr>pod_Name = ''test-pod'', pod_Namespace = ''default'', pod_UID = ''uid-1'',
      pod_Phase = PodRunning, pod_PodIP = ''10.0.0.1'', pod_Conditions = [(PodReady, ConditionTrue)],
      pod_EphemeralContainers =
        [container_named ''latency-injector-123'', container_named ''other-container'']\<rparr>"

definition action_latency :: ChaosAction where
  "action_latency =
     \<lparr>Type = ''latency'', TargetPod = ''test-pod'', Namespace = ''default'',
      Timestamp = ''2023-01-01T00:00:00Z'', Metadata = Some [''delay'' \<mapsto> ''200ms'']\<rparr>"

definition world_patch_fails :: world where
  "world_patch_fails =
     (with_ledger (MarshalIndent_actions [action_latency]) world0)
       \<lparr>k8s := cluster0\<lparr>pods := [test_pod], faults := [2]\<rparr>\<rparr>"
section \<open>Decimal digits and RFC 3339 timestamps\<close>














section \<open>Frame properties of logging and of the ledger\<close>

lemma log_frame [simp]:
  "fs (Info m w) = fs w" "k8s (Info m w) = k8s w" "stateFile (Info m w) = stateFile w"
  "clock (Info m w) = clock w" "draws (Info m w) = draws w"
  "GlobalConfig_DryRun (Info m w) = GlobalConfig_DryRun w"
  "fs (Warn m w) = fs w" "k8s (Warn m w) = k8s w" "stateFile (Warn m w) = stateFile w"
  "clock (Warn m w) = clock w" "draws (Warn m w) = draws w"
  "GlobalConfig_DryRun (Warn m w) = GlobalConfig_DryRun w"
  "fs (Error m w) = fs w" "k8s (Error m w) = k8s w" "stateFile (Error m w) = stateFile w"
  "clock (Error m w) = clock w" "draws (Error m w) = draws w"
  "GlobalConfig_DryRun (Error m w) = GlobalConfig_DryRun w"
  "fs (DryRun m w) = fs w" "k8s (DryRun m w) = k8s w" "stateFile (DryRun m w) = stateFile w"
  "clock (DryRun m w) = clock w" "draws (DryRun m w) = draws w"
  "GlobalConfig_DryRun (DryRun m w) = GlobalConfig_DryRun w"
  by (simp_all add: Info_def Warn_def Error_def DryRun_def)

lemma loadActions_cong:
  "fs w = fs w' \<Longrightarrow> stateFile w = stateFile w' \<Longrightarrow> loadActions w = loadActions w'"
  by (simp add: loadActions_def)



text \<open>A ledger that could be loaded can be loaded again after it is rewritten.\<close>

lemma loadActions_written:
  assumes "loadActions w = Inr old"
    and "os_WriteFile (stateFile w) (MarshalIndent_actions actions) (fs w) = (None, f)"
  shows "loadActions (w\<lparr>fs := f\<rparr>) = Inr actions"
    and "\<exists>r. files f (stateFile w) = Some (File r (MarshalIndent_actions actions))"
    and "\<And>p. p \<noteq> stateFile w \<Longrightarrow> files f p = files (fs w) p"
    and "failing f = failing (fs w)" and "homeDir f = homeDir (fs w)"
  using assms
  by (auto simp add: loadActions_def os_IsNotExist_def os_WriteFile_def os_ReadFile_def
      MarshalIndent_actions_def split: if_splits option.splits file_node.splits sum.splits)

lemma os_WriteFile_succeeds:
  "WriteFile_call path \<notin> set (failing f) \<Longrightarrow> \<exists>f'. os_WriteFile path data f = (None, f')"
  by (auto simp add: os_WriteFile_def split: option.splits file_node.splits)



section \<open>Save and load (C4)\<close>



section \<open>Loading the ledger (C5)\<close>




section \<open>Deleting from the ledger (C2)\<close>

lemma DeepEqual_eq: "DeepEqual (a::ChaosAction) b \<longleftrightarrow> a = b"
  by (auto simp add: DeepEqual_def)

lemma remove_first_remove1:
  "remove_first a xs = (if a \<in> set xs then Some (remove1 a xs) else None)"
  by (induction xs) (auto simp add: DeepEqual_eq)

lemma remove1_split:
  "a \<notin> set pre \<Longrightarrow> remove1 a (pre @ a # post) = pre @ post"
  by (induction pre) auto

lemma DeleteAction_not_found:
  assumes "loadActions w = Inr actions" and "a \<notin> set actions"
  shows "DeleteAction a w = (Some (Errorf ''action not found'' []), w)"
  using assms by (simp add: DeleteAction_def remove_first_remove1)

lemma DeleteAction_found:
  assumes "loadActions w = Inr actions" and "a \<in> set actions"
    and "WriteFile_call (stateFile w) \<notin> set (failing (fs w))"
  shows "\<exists>f. os_WriteFile (stateFile w) (MarshalIndent_actions (remove1 a actions)) (fs w) = (None, f)
           \<and> DeleteAction a w = (None, w\<lparr>fs := f\<rparr>)
           \<and> loadActions (w\<lparr>fs := f\<rparr>) = Inr (remove1 a actions)"
proof -
  from os_WriteFile_succeeds [OF assms(3)] obtain f where
    f: "os_WriteFile (stateFile w) (MarshalIndent_actions (remove1 a actions)) (fs w) = (None, f)"
    by blast
  have "DeleteAction a w = (None, w\<lparr>fs := f\<rparr>)"
    using assms(1,2) f by (simp add: DeleteAction_def remove_first_remove1)
  moreover have "loadActions (w\<lparr>fs := f\<rparr>) = Inr (remove1 a actions)"
    by (rule loadActions_written(1) [OF assms(1) f])
  ultimately show ?thesis using f by blast
qed

text \<open>
  C2. On a ledger that loads, \<^verbatim>\<open>DeleteAction(a)\<close> compares with deep equality,
  which holds exactly when all five fields agree (type, target pod, namespace, timestamp
  and metadata map). If no stored entry is deeply equal to \<open>a\<close>, it returns the
  not-found error and changes nothing. If the file can be written and \<open>e\<close> is the first
  entry deeply equal to \<open>a\<close>, it succeeds and the ledger then holds the entries before
  and after \<open>e\<close>, in order. In particular, of two stored actions that differ in the
  timestamp only, deleting either one by value leaves exactly the other.
\<close>

theorem DeleteAction_semantics:
  assumes "LoadActions w = Inr actions"
  shows "(DeepEqual x y \<longleftrightarrow>
            Type x = Type y \<and> TargetPod x = TargetPod y \<and> Namespace x = Namespace y
            \<and> Timestamp x = Timestamp y \<and> Metadata x = Metadata y)
       \<and> ((\<forall>e \<in> set actions. \<not> DeepEqual e a)
            \<longrightarrow> DeleteAction a w = (Some (Errorf ''action not found'' []), w))
       \<and> (actions = pre @ e # post \<and> DeepEqual e a \<and> (\<forall>p \<in> set pre. \<not> DeepEqual p a)
            \<and> WriteFile_call (stateFile w) \<notin> set (failing (fs w))
            \<longrightarrow> (\<exists>w'. DeleteAction a w = (None, w') \<and> LoadActions w' = Inr (pre @ post)))
       \<and> (actions = [a, a\<lparr>Timestamp := t\<rparr>] \<and> t \<noteq> Timestamp a
            \<and> WriteFile_call (stateFile w) \<notin> set (failing (fs w))
            \<longrightarrow> (\<exists>w'. DeleteAction a w = (None, w') \<and> LoadActions w' = Inr [a\<lparr>Timestamp := t\<rparr>])
              \<and> (\<exists>w'. DeleteAction (a\<lparr>Timestamp := t\<rparr>) w = (None, w') \<and> LoadActions w' = Inr [a]))"
proof (intro conjI impI)
  show "DeepEqual x y \<longleftrightarrow>
            Type x = Type y \<and> TargetPod x = TargetPod y \<and> Namespace x = Namespace y
            \<and> Timestamp x = Timestamp y \<and> Metadata x = Metadata y"
    by (simp add: DeepEqual_def)
next
  assume "\<forall>e \<in> set actions. \<not> DeepEqual e a"
  then have "a \<notin> set actions" by (auto simp add: DeepEqual_eq)
  with assms show "DeleteAction a w = (Some (Errorf ''action not found'' []), w)"
    by (simp add: LoadActions_def DeleteAction_not_found)
next
  assume h: "actions = pre @ e # post \<and> DeepEqual e a \<and> (\<forall>p \<in> set pre. \<not> DeepEqual p a)
            \<and> WriteFile_call (stateFile w) \<notin> set (failing (fs w))"
  then have e: "e = a" and pre: "a \<notin> set pre" and mem: "a \<in> set actions"
    by (auto simp add: DeepEqual_eq)
  from assms have l: "loadActions w = Inr actions" by (simp add: LoadActions_def)
  from DeleteAction_found [OF l mem] h obtain f where
    "DeleteAction a w = (None, w\<lparr>fs := f\<rparr>)"
    "loadActions (w\<lparr>fs := f\<rparr>) = Inr (remove1 a actions)"
    by blast
  moreover have "remove1 a actions = pre @ post"
    using h e pre by (simp add: remove1_split)
  ultimately show "\<exists>w'. DeleteAction a w = (None, w') \<and> LoadActions w' = Inr (pre @ post)"
    by (auto simp add: LoadActions_def)
next
  assume h: "actions = [a, a\<lparr>Timestamp := t\<rparr>] \<and> t \<noteq> Timestamp a
            \<and> WriteFile_call (stateFile w) \<notin> set (failing (fs w))"
  from assms have l: "loadActions w = Inr actions" by (simp add: LoadActions_def)
  have ne: "a\<lparr>Timestamp := t\<rparr> \<noteq> a"
  proof
    assume "a\<lparr>Timestamp := t\<rparr> = a"
    then have "Timestamp (a\<lparr>Timestamp := t\<rparr>) = Timestamp a" by simp
    with h show False by simp
  qed
  from h have mem: "a \<in> set actions" by simp
  from DeleteAction_found [OF l mem] h obtain f where
    "DeleteAction a w = (None, w\<lparr>fs := f\<rparr>)"
    "loadActions (w\<lparr>fs := f\<rparr>) = Inr (remove1 a actions)"
    by blast
  then show "\<exists>w'. DeleteAction a w = (None, w') \<and> LoadActions w' = Inr [a\<lparr>Timestamp := t\<rparr>]"
    using h by (auto simp add: LoadActions_def)
next
  assume h: "actions = [a, a\<lparr>Timestamp := t\<rparr>] \<and> t \<noteq> Timestamp a
            \<and> WriteFile_call (stateFile w) \<notin> set (failing (fs w))"
  from assms have l: "loadActions w = Inr actions" by (simp add: LoadActions_def)
  have ne: "a \<noteq> a\<lparr>Timestamp := t\<rparr>"
  proof
    assume "a = a\<lparr>Timestamp := t\<rparr>"
    then have "Timestamp a = Timestamp (a\<lparr>Timestamp := t\<rparr>)" by simp
    with h show False by simp
  qed
  from h have mem: "a\<lparr>Timestamp := t\<rparr> \<in> set actions" by simp
  from DeleteAction_found [OF l mem] h obtain f where
    "DeleteAction (a\<lparr>Timestamp := t\<rparr>) w = (None, w\<lparr>fs := f\<rparr>)"
    "loadActions (w\<lparr>fs := f\<rparr>) = Inr (remove1 (a\<lparr>Timestamp := t\<rparr>) actions)"
    by blast
  then show "\<exists>w'. DeleteAction (a\<lparr>Timestamp := t\<rparr>) w = (None, w') \<and> LoadActions w' = Inr [a]"
    using h ne by (auto simp add: LoadActions_def)
qed

theorem DeleteAction_semantics_witness:
  "LoadActions (with_ledger (MarshalIndent_actions [action1, action2]) world0) = Inr [action1, action2]
   \<and> (\<exists>w'. DeleteAction action1 (with_ledger (MarshalIndent_actions [action1, action2]) world0) = (None, w')
            \<and> LoadActions w' = Inr [action2])
   \<and> (\<exists>w'. DeleteAction action2 (with_ledger (MarshalIndent_actions [action1, action2]) world0) = (None, w')
            \<and> LoadActions w' = Inr [action1])
   \<and> DeleteAction action_no_timestamp (with_ledger (MarshalIndent_actions [action1, action2]) world0)
       = (Some (Errorf ''action not found'' []), with_ledger (MarshalIndent_actions [action1, action2]) world0)"
proof -
  let ?w = "with_ledger (MarshalIndent_actions [action1, action2]) world0"
  have l: "LoadActions ?w = Inr [action1, action2]"
    by (simp add: LoadActions_def loadActions_def with_ledger_def world0_def os_IsNotExist_def
        os_ReadFile_def MarshalIndent_actions_def)
  have a2: "[action1, action2] = [action1, action1\<lparr>Timestamp := ''2023-01-01T00:01:00Z''\<rparr>]"
    by (simp add: action2_def)
  have t: "''2023-01-01T00:01:00Z'' \<noteq> Timestamp action1" by (simp add: action1_def)
  have wr: "WriteFile_call (stateFile ?w) \<notin> set (failing (fs ?w))"
    by (simp add: with_ledger_def world0_def)
  have nf: "\<forall>e \<in> set [action1, action2]. \<not> DeepEqual e action_no_timestamp"
    by (simp add: DeepEqual_def action1_def action2_def action_no_timestamp_def)
  from DeleteAction_semantics [OF l, of action1 action1 action_no_timestamp "[]" action1 "[]" "''2023-01-01T00:01:00Z''"]
    DeleteAction_semantics [OF l, of action1 action1 action1 "[]" action1 "[action2]" "''2023-01-01T00:01:00Z''"]
    a2 t wr nf l
  show ?thesis by (simp add: action2_def)
qed

section \<open>The rollback engine: what each reverser touches\<close>

text \<open>
  \<open>keeps_disk w w' L\<close>: from \<open>w\<close> to \<open>w'\<close> the file system and the ledger's path
  are the same, and the log has only grown, by lines of the levels \<open>L\<close>.
\<close>

definition keeps_disk :: "world \<Rightarrow> world \<Rightarrow> level set \<Rightarrow> bool" where
  "keeps_disk w w' L =
     (fs w' = fs w \<and> stateFile w' = stateFile w
      \<and> (\<exists>es. logged w' = logged w @ es \<and> (\<forall>e \<in> set es. fst e \<in> L)))"

lemma keeps_refl: "keeps_disk w w L"
  by (simp add: keeps_disk_def)

lemma keeps_trans: "keeps_disk w w' L \<Longrightarrow> keeps_disk w' w'' L \<Longrightarrow> keeps_disk w w'' L"
  unfolding keeps_disk_def by (elim conjE exE) auto

lemma keeps_mono: "keeps_disk w w' L \<Longrightarrow> L \<subseteq> L' \<Longrightarrow> keeps_disk w w' L'"
  unfolding keeps_disk_def by blast

lemma keeps_k8s: "keeps_disk w w' L \<Longrightarrow> keeps_disk w (w'\<lparr>k8s := c\<rparr>) L"
  by (simp add: keeps_disk_def)

lemma keeps_Info: "INFO \<in> L \<Longrightarrow> keeps_disk w w' L \<Longrightarrow> keeps_disk w (Info m w') L"
  unfolding keeps_disk_def Info_def by (elim conjE exE) auto

lemma keeps_Warn: "WARN \<in> L \<Longrightarrow> keeps_disk w w' L \<Longrightarrow> keeps_disk w (Warn m w') L"
  unfolding keeps_disk_def Warn_def by (elim conjE exE) auto

lemma keeps_Error: "ERROR \<in> L \<Longrightarrow> keeps_disk w w' L \<Longrightarrow> keeps_disk w (Error m w') L"
  unfolding keeps_disk_def Error_def by (elim conjE exE) auto

lemma keeps_DryRun: "DRYRUN \<in> L \<Longrightarrow> keeps_disk w w' L \<Longrightarrow> keeps_disk w (DryRun m w') L"
  unfolding keeps_disk_def DryRun_def by (elim conjE exE) auto

lemma keeps_loadActions: "keeps_disk w w' L \<Longrightarrow> loadActions w' = loadActions w"
  by (simp add: keeps_disk_def loadActions_def)

lemma removeEphemeralContainer_keeps:
  assumes "removeEphemeralContainer namespace podName containerName w = (r, w')"
  shows "keeps_disk w w' {INFO, WARN}"
proof (cases "Pods_Get namespace podName (k8s w)")
  case (Pair g c)
  show ?thesis
  proof (cases g)
    case (Inl err)
    with Pair assms have "w' = w\<lparr>k8s := c\<rparr>"
      by (simp add: removeEphemeralContainer_def)
    then show ?thesis by (simp add: keeps_k8s keeps_refl)
  next
    case (Inr pod)
    obtain p c' where patch: "Pods_Patch namespace podName StrategicMergePatchType
        (filter (\<lambda>container. Name container \<noteq> containerName) (pod_EphemeralContainers pod))
        ''ephemeralContainers'' c = (p, c')"
      by (cases "Pods_Patch namespace podName StrategicMergePatchType
        (filter (\<lambda>container. Name container \<noteq> containerName) (pod_EphemeralContainers pod))
        ''ephemeralContainers'' c")
    show ?thesis
    proof (cases p)
      case (Inl err)
      with Pair Inr patch assms have "w' = w\<lparr>k8s := c'\<rparr>"
        by (simp add: removeEphemeralContainer_def)
      then show ?thesis by (simp add: keeps_k8s keeps_refl)
    next
      case (Inr patched)
      with Pair \<open>g = Inr pod\<close> patch assms have "\<exists>m. w' = Info m (w\<lparr>k8s := c'\<rparr>)"
        by (auto simp add: removeEphemeralContainer_def)
      then show ?thesis by (auto intro!: keeps_Info keeps_k8s keeps_refl)
    qed
  qed
qed

lemma removeContainers_loop_keeps:
  "keeps_disk w (removeContainers_loop namespace podName names w) {INFO, WARN}"
proof (induction names arbitrary: w)
  case Nil
  show ?case by (simp add: keeps_refl)
next
  case (Cons n names)
  obtain r w' where step: "removeEphemeralContainer namespace podName n w = (r, w')"
    by (cases "removeEphemeralContainer namespace podName n w")
  note k = removeEphemeralContainer_keeps [OF step]
  show ?case
  proof (cases r)
    case None
    with step have "removeContainers_loop namespace podName (n # names) w
        = removeContainers_loop namespace podName names w'" by simp
    with Cons [of w'] k show ?thesis by (auto intro: keeps_trans)
  next
    case (Some err)
    let ?w = "Warn (Sprintf ''Failed to remove ephemeral container '%s': %v'' [Str n, Cause err]) w'"
    from Some step have "removeContainers_loop namespace podName (n # names) w
        = removeContainers_loop namespace podName names ?w" by simp
    moreover have "keeps_disk w ?w {INFO, WARN}" by (rule keeps_Warn [OF _ k]) simp
    ultimately show ?thesis using Cons [of ?w] by (auto intro: keeps_trans)
  qed
qed

lemma removeContainers_loop_keeps':
  assumes "keeps_disk w0 w L" and "INFO \<in> L" and "WARN \<in> L"
  shows "keeps_disk w0 (removeContainers_loop namespace podName names w) L"
proof -
  have "keeps_disk w (removeContainers_loop namespace podName names w) L"
    by (rule keeps_mono [OF removeContainers_loop_keeps]) (simp add: assms)
  with assms(1) show ?thesis by (rule keeps_trans)
qed

lemmas keeps_intros =
  keeps_refl keeps_k8s keeps_Info keeps_Warn keeps_Error keeps_DryRun removeContainers_loop_keeps'

lemma RevertTC_keeps:
  assumes "RevertTC action dryRun w = (r, w')"
  shows "keeps_disk w w' {INFO, WARN, DRYRUN}"
  using assms unfolding RevertTC_def Let_def
  by (auto split: prod.splits sum.splits if_splits intro!: keeps_intros)

lemma RemoveEphemeral_keeps:
  assumes "RemoveEphemeral action dryRun w = (r, w')"
  shows "keeps_disk w w' {INFO, WARN, DRYRUN}"
  using assms unfolding RemoveEphemeral_def Let_def
  by (auto split: prod.splits sum.splits if_splits intro!: keeps_intros)

lemma handleKillAction_result:
  "\<exists>w'. handleKillAction action dryRun w = (None, w')
     \<and> k8s w' = k8s w \<and> keeps_disk w w' {WARN, DRYRUN}"
  unfolding handleKillAction_def Let_def
  by (auto intro!: keeps_intros)

lemma RevertTC_fetched:
  assumes "Pods_Get (Namespace action) (TargetPod action) (k8s w) = (Inr pod, c)"
  shows "fst (RevertTC action False w) = None"
  using assms unfolding RevertTC_def Let_def by simp

lemma RemoveEphemeral_fetched:
  assumes "Pods_Get (Namespace action) (TargetPod action) (k8s w) = (Inr pod, c)"
  shows "fst (RemoveEphemeral action False w) = None"
  using assms unfolding RemoveEphemeral_def Let_def by simp

text \<open>
  \<open>keeps_ledger w w'\<close>: from \<open>w\<close> to \<open>w'\<close> the ledger's path and the refused calls
  are the same, and a ledger that loaded still loads, with the same content.
\<close>

definition keeps_ledger :: "world \<Rightarrow> world \<Rightarrow> bool" where
  "keeps_ledger w w' =
     (stateFile w' = stateFile w \<and> failing (fs w') = failing (fs w)
      \<and> (\<forall>actions. loadActions w = Inr actions \<longrightarrow> loadActions w' = Inr actions))"

lemma loadActions_frame [simp]:
  "loadActions (w\<lparr>k8s := c\<rparr>) = loadActions w"
  "loadActions (w\<lparr>draws := ds\<rparr>) = loadActions w"
  "loadActions (Info m w) = loadActions w"
  "loadActions (Warn m w) = loadActions w"
  "loadActions (Error m w) = loadActions w"
  "loadActions (DryRun m w) = loadActions w"
  by (rule loadActions_cong; simp)+

lemma keeps_disk_ledger: "keeps_disk w w' L \<Longrightarrow> keeps_ledger w w'"
  by (simp add: keeps_disk_def keeps_ledger_def loadActions_cong [of w' w])

lemma backup_is_not_ledger:
  assumes "loadActions w = Inr actions"
    and "os_ReadFile path (fs w) = Inr data" and "Unmarshal_endpoints data = Inr e"
  shows "path \<noteq> stateFile w"
proof
  assume p: "path = stateFile w"
  from assms(3) obtain ind where d: "data = Json ind (Endpoints_Doc e)"
    by (cases data rule: Unmarshal_endpoints.cases) auto
  from assms(2) p have "\<not> os_IsNotExist (stateFile w) (fs w)"
    by (auto simp add: os_IsNotExist_def os_ReadFile_def split: option.splits)
  with assms(2) p d have "\<exists>err. loadActions w = Inl err"
    by (simp add: loadActions_def)
  with assms(1) show False by simp
qed

lemma os_Remove_other:
  assumes "os_Remove path f = (r, f')" and "p \<noteq> path"
  shows "files f' p = files f p" and "failing f' = failing f"
  using assms by (auto simp add: os_Remove_def split: if_splits)

lemma loadActions_other_file:
  assumes "files f (stateFile w) = files (fs w) (stateFile w)"
  shows "loadActions (w\<lparr>fs := f\<rparr>) = loadActions w"
proof -
  have "os_IsNotExist (stateFile w) f = os_IsNotExist (stateFile w) (fs w)"
    using assms by (simp add: os_IsNotExist_def)
  moreover have "os_ReadFile (stateFile w) f = os_ReadFile (stateFile w) (fs w)"
    using assms by (simp add: os_ReadFile_def)
  ultimately show ?thesis by (simp add: loadActions_def)
qed

lemma keeps_ledger_Remove:
  assumes "os_Remove path (fs w) = (r, f)"
    and "os_ReadFile path (fs w) = Inr data" and "Unmarshal_endpoints data = Inr e"
  shows "keeps_ledger w (w\<lparr>fs := f\<rparr>)"
  unfolding keeps_ledger_def
proof (intro conjI allI impI)
  show "stateFile (w\<lparr>fs := f\<rparr>) = stateFile w" by simp
  show "failing (fs (w\<lparr>fs := f\<rparr>)) = failing (fs w)"
    using assms(1) by (auto simp add: os_Remove_def split: if_splits)
  fix actions assume l: "loadActions w = Inr actions"
  from backup_is_not_ledger [OF l assms(2,3)] have "stateFile w \<noteq> path" by blast
  from os_Remove_other(1) [OF assms(1) this] l
  show "loadActions (w\<lparr>fs := f\<rparr>) = Inr actions"
    by (simp add: loadActions_other_file)
qed

lemma keeps_ledger_refl: "keeps_ledger w w"
  by (simp add: keeps_ledger_def)

lemma keeps_ledger_trans: "keeps_ledger w w' \<Longrightarrow> keeps_ledger w' w'' \<Longrightarrow> keeps_ledger w w''"
  by (simp add: keeps_ledger_def)

lemma keeps_ledger_log:
  "keeps_ledger w w' \<Longrightarrow> keeps_ledger w (Info m w')"
  "keeps_ledger w w' \<Longrightarrow> keeps_ledger w (Warn m w')"
  "keeps_ledger w w' \<Longrightarrow> keeps_ledger w (Error m w')"
  "keeps_ledger w w' \<Longrightarrow> keeps_ledger w (DryRun m w')"
  "keeps_ledger w w' \<Longrightarrow> keeps_ledger w (w'\<lparr>k8s := c\<rparr>)"
  by (simp_all add: keeps_ledger_def)

text \<open>A failed restore has touched no file; a restore, failed or not, keeps the ledger.\<close>

lemma RestoreEndpoints_failed:
  assumes "RestoreEndpoints action dryRun w = (Some err, w')"
  shows "fs w' = fs w" and "stateFile w' = stateFile w"
  using assms unfolding RestoreEndpoints_def Let_def
  by (auto split: prod.splits sum.splits if_splits option.splits)

lemma RestoreEndpoints_keeps_ledger:
  assumes "RestoreEndpoints action dryRun w = (r, w')"
  shows "keeps_ledger w w'"
proof -
  let ?w = "Info (Sprintf (''Restoring endpoints for service '%s' in namespace '%s'' @ q)
                      [Str (TargetPod action), Str (Namespace action)]) w"
  have k0: "keeps_ledger w ?w" by (simp add: keeps_ledger_log keeps_ledger_refl)
  have rem: "\<And>path data e c f r'.
       os_ReadFile path (fs ?w) = Inr data \<Longrightarrow> Unmarshal_endpoints data = Inr e
       \<Longrightarrow> os_Remove path (fs ?w) = (r', f)
       \<Longrightarrow> keeps_ledger w (?w\<lparr>k8s := c, fs := f\<rparr>)"
  proof -
    fix path data e c f r'
    assume a: "os_ReadFile path (fs ?w) = Inr data" "Unmarshal_endpoints data = Inr e"
      "os_Remove path (fs ?w) = (r', f)"
    have "keeps_ledger ?w (?w\<lparr>fs := f\<rparr>)" by (rule keeps_ledger_Remove [OF a(3) a(1) a(2)])
    with k0 have "keeps_ledger w (?w\<lparr>fs := f\<rparr>)" by (rule keeps_ledger_trans)
    then have k: "keeps_ledger w ((?w\<lparr>fs := f\<rparr>)\<lparr>k8s := c\<rparr>)"
      by (rule keeps_ledger_log)
    have eq: "?w\<lparr>k8s := c, fs := f\<rparr> = (?w\<lparr>fs := f\<rparr>)\<lparr>k8s := c\<rparr>"
      by simp
    show "keeps_ledger w (?w\<lparr>k8s := c, fs := f\<rparr>)"
      by (subst eq) (rule k)
  qed
  show ?thesis
    using assms k0 rem unfolding RestoreEndpoints_def Let_def
    by (auto split: prod.splits sum.splits if_splits option.splits
        intro!: keeps_ledger_log)
qed

lemma rollbackAction_cases:
  "rollbackAction action dryRun w = RevertTC action dryRun w
   \<or> rollbackAction action dryRun w = RemoveEphemeral action dryRun w
   \<or> rollbackAction action dryRun w = RestoreEndpoints action dryRun w
   \<or> rollbackAction action dryRun w = handleKillAction action dryRun w
   \<or> rollbackAction action dryRun w
        = (Some (Errorf ''unknown action type: %s'' [Str (Type action)]), w)"
  by (simp add: rollbackAction_def)

lemma rollbackAction_keeps_ledger:
  assumes "rollbackAction action dryRun w = (r, w')"
  shows "keeps_ledger w w'"
  using rollbackAction_cases [of action dryRun w]
proof (elim disjE)
  assume "rollbackAction action dryRun w = RevertTC action dryRun w"
  with assms show ?thesis by (auto dest: RevertTC_keeps intro: keeps_disk_ledger)
next
  assume "rollbackAction action dryRun w = RemoveEphemeral action dryRun w"
  with assms show ?thesis by (auto dest: RemoveEphemeral_keeps intro: keeps_disk_ledger)
next
  assume "rollbackAction action dryRun w = RestoreEndpoints action dryRun w"
  with assms show ?thesis by (auto dest: RestoreEndpoints_keeps_ledger)
next
  assume "rollbackAction action dryRun w = handleKillAction action dryRun w"
  with assms handleKillAction_result [of action dryRun w] show ?thesis
    by (auto intro: keeps_disk_ledger)
next
  assume "rollbackAction action dryRun w
        = (Some (Errorf ''unknown action type: %s'' [Str (Type action)]), w)"
  with assms show ?thesis by (auto intro: keeps_ledger_refl)
qed

lemma rollbackAction_failed:
  assumes "rollbackAction action dryRun w = (Some err, w')"
  shows "fs w' = fs w \<and> stateFile w' = stateFile w"
  using rollbackAction_cases [of action dryRun w]
proof (elim disjE)
  assume "rollbackAction action dryRun w = RevertTC action dryRun w"
  with assms show ?thesis by (auto dest: RevertTC_keeps simp add: keeps_disk_def)
next
  assume "rollbackAction action dryRun w = RemoveEphemeral action dryRun w"
  with assms show ?thesis by (auto dest: RemoveEphemeral_keeps simp add: keeps_disk_def)
next
  assume "rollbackAction action dryRun w = RestoreEndpoints action dryRun w"
  with assms show ?thesis by (auto dest: RestoreEndpoints_failed)
next
  assume "rollbackAction action dryRun w = handleKillAction action dryRun w"
  with assms handleKillAction_result [of action dryRun w] show ?thesis
    by (auto simp add: keeps_disk_def)
next
  assume "rollbackAction action dryRun w
        = (Some (Errorf ''unknown action type: %s'' [Str (Type action)]), w)"
  with assms show ?thesis by auto
qed

lemma rollbackAction_kill:
  assumes "Type action = ''kill''"
  shows "\<exists>w'. rollbackAction action dryRun w = (None, w') \<and> k8s w' = k8s w \<and> fs w' = fs w"
  using assms handleKillAction_result [of action dryRun w]
  by (auto simp add: rollbackAction_def keeps_disk_def)

lemma rollbackAction_unknown:
  assumes "Type action \<notin> {''kill'', ''latency'', ''packetloss'', ''cpustress'', ''misroute''}"
  shows "rollbackAction action dryRun w = (Some (Errorf ''unknown action type: %s'' [Str (Type action)]), w)"
  using assms by (simp add: rollbackAction_def)

section \<open>The rollback loop (C1)\<close>

lemma DeleteAction_frame:
  assumes "DeleteAction a w = (r, w')"
  shows "k8s w' = k8s w" and "stateFile w' = stateFile w" and "logged w' = logged w"
  using assms unfolding DeleteAction_def Let_def
  by (auto split: sum.splits option.splits prod.splits)

text \<open>One turn of the loop: the action either fails or succeeds, and is counted once.\<close>

lemma rollback_step:
  assumes "rollback_loop dryRun [a] (w, s, f, fa) = (w1, s1, f1, fa1)"
  shows "(\<exists>m m' err v. rollbackAction a dryRun (Info m w) = (Some err, v)
            \<and> w1 = Error m' v \<and> s1 = s \<and> f1 = f + 1 \<and> fa1 = fa @ [a])
       \<or> (\<exists>m v. rollbackAction a dryRun (Info m w) = (None, v)
            \<and> s1 = s + 1 \<and> f1 = f \<and> fa1 = fa
            \<and> (dryRun \<longrightarrow> w1 = v)
            \<and> (\<not> dryRun \<longrightarrow>
                 (\<exists>m' err w2. DeleteAction a v = (Some err, w2) \<and> w1 = Warn m' w2)
               \<or> DeleteAction a v = (None, w1)))"
proof -
  let ?m = "Sprintf (''Rolling back %s action for pod '%s' in namespace '%s'' @ q)
              [Str (Type a), Str (TargetPod a), Str (Namespace a)]"
  obtain r v where ra: "rollbackAction a dryRun (Info ?m w) = (r, v)"
    by (cases "rollbackAction a dryRun (Info ?m w)")
  show ?thesis
  proof (cases r)
    case (Some err)
    with ra assms
    have "w1 = Error (Sprintf ''Failed to rollback action: %v'' [Cause err]) v
          \<and> s1 = s \<and> f1 = f + 1 \<and> fa1 = fa @ [a]"
      by (auto simp add: Let_def)
    with ra Some show ?thesis by blast
  next
    case None
    show ?thesis
    proof (cases dryRun)
      case True
      with ra None assms have "w1 = v \<and> s1 = s + 1 \<and> f1 = f \<and> fa1 = fa"
        by (auto simp add: Let_def)
      with ra None True show ?thesis by blast
    next
      case False
      obtain d w2 where da: "DeleteAction a v = (d, w2)"
        by (cases "DeleteAction a v")
      show ?thesis
      proof (cases d)
        case (Some err)
        with ra None False da assms
        have "w1 = Warn (Sprintf ''Failed to remove action from state: %v'' [Cause err]) w2
              \<and> s1 = s + 1 \<and> f1 = f \<and> fa1 = fa"
          by (auto simp add: Let_def)
        with ra \<open>r = None\<close> False da Some show ?thesis by blast
      next
        case dn: None
        with ra None False da assms have "w1 = w2 \<and> s1 = s + 1 \<and> f1 = f \<and> fa1 = fa"
          by (auto simp add: Let_def)
        with ra None False da dn show ?thesis by blast
      qed
    qed
  qed
qed

lemma rollback_loop_Cons:
  "rollback_loop dryRun (a # rest) st = rollback_loop dryRun rest (rollback_loop dryRun [a] st)"
  by (cases st) (auto simp add: Let_def split: prod.splits option.splits)

lemma rollback_loop_counts:
  "rollback_loop dryRun actions (w, s, f, fa) = (wn, sn, fn, fan)
   \<Longrightarrow> sn + fn = s + f + length actions"
proof (induction actions arbitrary: w s f fa)
  case Nil
  then show ?case by simp
next
  case (Cons a actions)
  obtain w1 s1 f1 fa1 where step: "rollback_loop dryRun [a] (w, s, f, fa) = (w1, s1, f1, fa1)"
    by (cases "rollback_loop dryRun [a] (w, s, f, fa)") auto
  from rollback_step [OF step] have "s1 + f1 = s + f + 1" by auto
  moreover from Cons.prems step
  have "rollback_loop dryRun actions (w1, s1, f1, fa1) = (wn, sn, fn, fan)"
    by (simp only: rollback_loop_Cons [of dryRun a actions])
  from Cons.IH [OF this] have "sn + fn = s1 + f1 + length actions" .
  ultimately show ?case by simp
qed

lemma deleted_after_success:
  assumes l: "loadActions v = Inr L"
    and wr: "WriteFile_call (stateFile v) \<notin> set (failing (fs v))"
    and d: "(\<exists>m' err w2. DeleteAction a v = (Some err, w2) \<and> w1 = Warn m' w2)
            \<or> DeleteAction a v = (None, w1)"
  shows "loadActions w1 = Inr (remove1 a L)"
proof (cases "a \<in> set L")
  case True
  from DeleteAction_found [OF l True wr] d show ?thesis by auto
next
  case False
  then have "remove1 a L = L" by (simp add: remove1_idem)
  with DeleteAction_not_found [OF l False] d l show ?thesis by auto
qed

lemma rollback_turn:
  assumes "rollback_loop dryRun [a] (w, s, f, fa) = (w1, s1, f1, fa1)"
  shows "rollback_loop dryRun (a # rest) (w, s, f, fa) = rollback_loop dryRun rest (w1, s1, f1, fa1)"
    and "rollback_loop dryRun actions (w, s, f, fa) = (wn, sn, fn, fan)
           \<longrightarrow> sn + fn = s + f + length actions"
    and "(s1 = s + 1 \<and> f1 = f \<and> fa1 = fa) \<or> (s1 = s \<and> f1 = f + 1 \<and> fa1 = fa @ [a])"
    and "Type a = ''kill''
           \<longrightarrow> (\<exists>v. rollbackAction a dryRun w = (None, v) \<and> k8s v = k8s w \<and> fs v = fs w)
             \<and> s1 = s + 1 \<and> f1 = f \<and> k8s w1 = k8s w"
    and "Type a \<notin> {''kill'', ''latency'', ''packetloss'', ''cpustress'', ''misroute''}
           \<longrightarrow> rollbackAction a dryRun w
                 = (Some (Errorf ''unknown action type: %s'' [Str (Type a)]), w)
             \<and> s1 = s \<and> f1 = f + 1 \<and> fa1 = fa @ [a] \<and> k8s w1 = k8s w \<and> fs w1 = fs w"
    and "f1 \<noteq> f \<longrightarrow> fa1 = fa @ [a] \<and> fs w1 = fs w \<and> LoadActions w1 = LoadActions w"
    and "\<not> dryRun \<and> s1 \<noteq> s \<and> LoadActions w = Inr L
           \<and> WriteFile_call (stateFile w) \<notin> set (failing (fs w))
           \<longrightarrow> LoadActions w1 = Inr (remove1 a L)"
proof -
  note step = rollback_step [OF assms]
  show "rollback_loop dryRun (a # rest) (w, s, f, fa) = rollback_loop dryRun rest (w1, s1, f1, fa1)"
    using assms by (simp only: rollback_loop_Cons [of dryRun a rest])
  show "rollback_loop dryRun actions (w, s, f, fa) = (wn, sn, fn, fan)
           \<longrightarrow> sn + fn = s + f + length actions"
    by (auto dest: rollback_loop_counts)
  show "(s1 = s + 1 \<and> f1 = f \<and> fa1 = fa) \<or> (s1 = s \<and> f1 = f + 1 \<and> fa1 = fa @ [a])"
    using step by auto
  show "Type a = ''kill''
           \<longrightarrow> (\<exists>v. rollbackAction a dryRun w = (None, v) \<and> k8s v = k8s w \<and> fs v = fs w)
             \<and> s1 = s + 1 \<and> f1 = f \<and> k8s w1 = k8s w"
  proof
    assume k: "Type a = ''kill''"
    from step show "(\<exists>v. rollbackAction a dryRun w = (None, v) \<and> k8s v = k8s w \<and> fs v = fs w)
             \<and> s1 = s + 1 \<and> f1 = f \<and> k8s w1 = k8s w"
    proof (elim disjE exE conjE)
      fix m m' err v
      assume "rollbackAction a dryRun (Info m w) = (Some err, v)"
      with rollbackAction_kill [OF k, of dryRun "Info m w"] show ?thesis by simp
    next
      fix m v
      assume r: "rollbackAction a dryRun (Info m w) = (None, v)"
        and c: "s1 = s + 1" "f1 = f"
        and dry: "dryRun \<longrightarrow> w1 = v"
        and del: "\<not> dryRun \<longrightarrow>
                 (\<exists>m' err w2. DeleteAction a v = (Some err, w2) \<and> w1 = Warn m' w2)
               \<or> DeleteAction a v = (None, w1)"
      from rollbackAction_kill [OF k, of dryRun "Info m w"] r have v: "k8s v = k8s w" by simp
      have "k8s w1 = k8s v"
        using dry del by (cases dryRun) (auto dest: DeleteAction_frame(1))
      with v c rollbackAction_kill [OF k, of dryRun w] show ?thesis by simp
    qed
  qed
  show "Type a \<notin> {''kill'', ''latency'', ''packetloss'', ''cpustress'', ''misroute''}
           \<longrightarrow> rollbackAction a dryRun w
                 = (Some (Errorf ''unknown action type: %s'' [Str (Type a)]), w)
             \<and> s1 = s \<and> f1 = f + 1 \<and> fa1 = fa @ [a] \<and> k8s w1 = k8s w \<and> fs w1 = fs w"
  proof
    assume u: "Type a \<notin> {''kill'', ''latency'', ''packetloss'', ''cpustress'', ''misroute''}"
    note ua = rollbackAction_unknown [OF u]
    from step ua [of dryRun] show "rollbackAction a dryRun w
                 = (Some (Errorf ''unknown action type: %s'' [Str (Type a)]), w)
             \<and> s1 = s \<and> f1 = f + 1 \<and> fa1 = fa @ [a] \<and> k8s w1 = k8s w \<and> fs w1 = fs w"
      by auto
  qed
  show "f1 \<noteq> f \<longrightarrow> fa1 = fa @ [a] \<and> fs w1 = fs w \<and> LoadActions w1 = LoadActions w"
  proof
    assume "f1 \<noteq> f"
    with step obtain m m' err v where
      r: "rollbackAction a dryRun (Info m w) = (Some err, v)"
      and w1: "w1 = Error m' v" and fa1: "fa1 = fa @ [a]"
      by auto
    from rollbackAction_failed [OF r] have "fs v = fs w" "stateFile v = stateFile w" by simp_all
    with w1 fa1 show "fa1 = fa @ [a] \<and> fs w1 = fs w \<and> LoadActions w1 = LoadActions w"
      by (simp add: LoadActions_def loadActions_cong [of v w])
  qed
  show "\<not> dryRun \<and> s1 \<noteq> s \<and> LoadActions w = Inr L
           \<and> WriteFile_call (stateFile w) \<notin> set (failing (fs w))
           \<longrightarrow> LoadActions w1 = Inr (remove1 a L)"
  proof
    assume h: "\<not> dryRun \<and> s1 \<noteq> s \<and> LoadActions w = Inr L
           \<and> WriteFile_call (stateFile w) \<notin> set (failing (fs w))"
    with step obtain m v where
      r: "rollbackAction a dryRun (Info m w) = (None, v)"
      and del: "(\<exists>m' err w2. DeleteAction a v = (Some err, w2) \<and> w1 = Warn m' w2)
               \<or> DeleteAction a v = (None, w1)"
      by blast
    from rollbackAction_keeps_ledger [OF r] h
    have l: "loadActions v = Inr L" and wr: "WriteFile_call (stateFile v) \<notin> set (failing (fs v))"
      by (simp_all add: keeps_ledger_def LoadActions_def)
    from deleted_after_success [OF l wr del] show "LoadActions w1 = Inr (remove1 a L)"
      by (simp add: LoadActions_def)
  qed
qed

text \<open>
  C1. The loop handles the filtered actions one at a time: running it on \<open>a\<close> and the
  rest is running it on \<open>a\<close> alone and then on the rest, and every action is counted
  once, as a success or as a failure, whatever happened to the others. For the turn on
  one action \<open>a\<close>: a \<^verbatim>\<open>kill\<close> action counts as a success and sends the cluster
  nothing; an action of a type outside the five known ones fails with the
  unknown-action-type error, touching neither cluster nor disk; an action that fails is
  added to the failed ones and the file system, the ledger with it, is left as it was;
  and outside dry-run mode, with a ledger that loads and can be written, an action that
  succeeds is gone from the ledger (its first entry equal to it) when its own turn
  ends, before the next action is looked at.
\<close>

theorem rollback_each_action:
  assumes "rollback_loop dryRun [a] (w, s, f, fa) = (w1, s1, f1, fa1)"
  shows "rollback_loop dryRun (a # rest) (w, s, f, fa) = rollback_loop dryRun rest (w1, s1, f1, fa1)
    \<and> (rollback_loop dryRun actions (w, s, f, fa) = (wn, sn, fn, fan)
           \<longrightarrow> sn + fn = s + f + length actions)
    \<and> ((s1 = s + 1 \<and> f1 = f \<and> fa1 = fa) \<or> (s1 = s \<and> f1 = f + 1 \<and> fa1 = fa @ [a]))
    \<and> (Type a = ''kill''
           \<longrightarrow> (\<exists>v. rollbackAction a dryRun w = (None, v) \<and> k8s v = k8s w \<and> fs v = fs w)
             \<and> s1 = s + 1 \<and> f1 = f \<and> k8s w1 = k8s w)
    \<and> (Type a \<notin> {''kill'', ''latency'', ''packetloss'', ''cpustress'', ''misroute''}
           \<longrightarrow> rollbackAction a dryRun w
                 = (Some (Errorf ''unknown action type: %s'' [Str (Type a)]), w)
             \<and> s1 = s \<and> f1 = f + 1 \<and> fa1 = fa @ [a] \<and> k8s w1 = k8s w \<and> fs w1 = fs w)
    \<and> (f1 \<noteq> f \<longrightarrow> fa1 = fa @ [a] \<and> fs w1 = fs w \<and> LoadActions w1 = LoadActions w)
    \<and> (\<not> dryRun \<and> s1 \<noteq> s \<and> LoadActions w = Inr L
           \<and> WriteFile_call (stateFile w) \<notin> set (failing (fs w))
           \<longrightarrow> LoadActions w1 = Inr (remove1 a L))"
  using rollback_turn [OF assms] by blast

theorem rollback_each_action_witness:
  "fst (snd (rollback_loop False [action_kill] (world_kill_bogus, 0, 0, []))) = 1
   \<and> k8s (fst (rollback_loop False [action_kill] (world_kill_bogus, 0, 0, []))) = k8s world_kill_bogus
   \<and> LoadActions (fst (rollback_loop False [action_kill] (world_kill_bogus, 0, 0, [])))
       = Inr [action_bogus]
   \<and> snd (rollback_loop False [action_bogus] (world_kill_bogus, 0, 0, [])) = (0, 1, [action_bogus])
   \<and> LoadActions (fst (rollback_loop False [action_bogus] (world_kill_bogus, 0, 0, [])))
       = Inr [action_kill, action_bogus]"
proof -
  let ?K = "rollback_loop False [action_kill] (world_kill_bogus, 0, 0, [])"
  let ?B = "rollback_loop False [action_bogus] (world_kill_bogus, 0, 0, [])"
  have k: "?K = (fst ?K, fst (snd ?K), fst (snd (snd ?K)), snd (snd (snd ?K)))" by simp
  have b: "?B = (fst ?B, fst (snd ?B), fst (snd (snd ?B)), snd (snd (snd ?B)))" by simp
  have l: "LoadActions world_kill_bogus = Inr [action_kill, action_bogus]"
    by (simp add: LoadActions_def loadActions_def world_kill_bogus_def with_ledger_def world0_def
        os_IsNotExist_def os_ReadFile_def MarshalIndent_actions_def)
  have wr: "WriteFile_call (stateFile world_kill_bogus) \<notin> set (failing (fs world_kill_bogus))"
    by (simp add: world_kill_bogus_def with_ledger_def world0_def)
  have tk: "Type action_kill = ''kill''" by (simp add: action_kill_def)
  have tb: "Type action_bogus \<notin> {''kill'', ''latency'', ''packetloss'', ''cpustress'', ''misroute''}"
    by (simp add: action_bogus_def)
  have ne: "action_kill \<noteq> action_bogus" by (simp add: action_kill_def action_bogus_def)
  note K = rollback_each_action [OF k, of "[]" "[]" world_kill_bogus 0 0 "[]" "[action_kill, action_bogus]"]
  note B = rollback_each_action [OF b, of "[]" "[]" world_kill_bogus 0 0 "[]" "[action_kill, action_bogus]"]
  from K tk l wr have "fst (snd ?K) = 1 \<and> k8s (fst ?K) = k8s world_kill_bogus
      \<and> LoadActions (fst ?K) = Inr [action_bogus]"
    by simp
  moreover from B tb l have "snd ?B = (0, 1, [action_bogus])
      \<and> LoadActions (fst ?B) = Inr [action_kill, action_bogus]"
    by (simp add: prod_eq_iff)
  ultimately show ?thesis by blast
qed

section \<open>Rollback of an injection whose containers stay (C10)\<close>

lemma RevertTC_fetched_keeps:
  assumes "Pods_Get (Namespace action) (TargetPod action) (k8s w) = (Inr pod, c)"
  shows "\<exists>v. RevertTC action False w = (None, v) \<and> keeps_disk w v {INFO, WARN}"
  using assms unfolding RevertTC_def Let_def
  by (auto intro!: keeps_intros)

lemma RemoveEphemeral_fetched_keeps:
  assumes "Pods_Get (Namespace action) (TargetPod action) (k8s w) = (Inr pod, c)"
  shows "\<exists>v. RemoveEphemeral action False w = (None, v) \<and> keeps_disk w v {INFO, WARN}"
  using assms unfolding RemoveEphemeral_def Let_def
  by (auto intro!: keeps_intros)

lemma rollbackAction_fetched:
  assumes "Type a \<in> {''latency'', ''packetloss'', ''cpustress''}"
    and "Pods_Get (Namespace a) (TargetPod a) (k8s w) = (Inr pod, c)"
  shows "\<exists>v. rollbackAction a False w = (None, v) \<and> keeps_disk w v {INFO, WARN}"
  using assms RevertTC_fetched_keeps [OF assms(2)] RemoveEphemeral_fetched_keeps [OF assms(2)]
  by (auto simp add: rollbackAction_def)

text \<open>
  C10. Outside dry-run mode, take a \<^verbatim>\<open>latency\<close>, \<^verbatim>\<open>packetloss\<close> or
  \<^verbatim>\<open>cpustress\<close> action whose pod the reverser can fetch. Whatever the API server
  then does with the requests that remove containers (the model lets any of them fail,
  and lets a patch that is accepted change the pod in any way or not at all), the
  action's rollback returns no error; it touches no file, and the lines it logs are
  informational or warnings, never errors. So the loop counts the action as a success,
  and with a ledger that loads and can be written the action's entry is gone from the
  ledger after its turn.
\<close>

theorem rollback_succeeds_when_removal_fails:
  assumes "Type a \<in> {''latency'', ''packetloss'', ''cpustress''}"
    and "Pods_Get (Namespace a) (TargetPod a) (k8s w) = (Inr pod, c)"
  shows "(\<exists>v. rollbackAction a False w = (None, v) \<and> fs v = fs w
            \<and> (\<exists>es. logged v = logged w @ es \<and> (\<forall>e \<in> set es. fst e \<in> {INFO, WARN})))
       \<and> (\<exists>w1. rollback_loop False [a] (w, s, f, fa) = (w1, s + 1, f, fa)
            \<and> (LoadActions w = Inr L \<and> WriteFile_call (stateFile w) \<notin> set (failing (fs w))
                 \<longrightarrow> LoadActions w1 = Inr (remove1 a L)))"
proof
  from rollbackAction_fetched [OF assms]
  show "\<exists>v. rollbackAction a False w = (None, v) \<and> fs v = fs w
            \<and> (\<exists>es. logged v = logged w @ es \<and> (\<forall>e \<in> set es. fst e \<in> {INFO, WARN}))"
    by (auto simp add: keeps_disk_def)
next
  obtain w1 s1 f1 fa1 where step: "rollback_loop False [a] (w, s, f, fa) = (w1, s1, f1, fa1)"
    by (cases "rollback_loop False [a] (w, s, f, fa)") auto
  have ok: "\<And>m. fst (rollbackAction a False (Info m w)) = None"
  proof -
    fix m
    from assms(2) have "Pods_Get (Namespace a) (TargetPod a) (k8s (Info m w)) = (Inr pod, c)"
      by simp
    from rollbackAction_fetched [OF assms(1) this] show "fst (rollbackAction a False (Info m w)) = None"
      by auto
  qed
  have c: "s1 = s + 1 \<and> f1 = f \<and> fa1 = fa"
  proof (rule disjE [OF rollback_step [OF step]])
    assume "\<exists>m m' err v. rollbackAction a False (Info m w) = (Some err, v)
            \<and> w1 = Error m' v \<and> s1 = s \<and> f1 = f + 1 \<and> fa1 = fa @ [a]"
    then obtain m err v where "rollbackAction a False (Info m w) = (Some err, v)"
      by blast
    with ok [of m] show ?thesis by simp
  next
    assume "\<exists>m v. rollbackAction a False (Info m w) = (None, v)
            \<and> s1 = s + 1 \<and> f1 = f \<and> fa1 = fa
            \<and> (False \<longrightarrow> w1 = v)
            \<and> (\<not> False \<longrightarrow>
                 (\<exists>m' err w2. DeleteAction a v = (Some err, w2) \<and> w1 = Warn m' w2)
               \<or> DeleteAction a v = (None, w1))"
    then show ?thesis by blast
  qed
  have "LoadActions w = Inr L \<and> WriteFile_call (stateFile w) \<notin> set (failing (fs w))
                 \<longrightarrow> LoadActions w1 = Inr (remove1 a L)"
    using rollback_turn(7) [OF step, of L] c by simp
  with step c show "\<exists>w1. rollback_loop False [a] (w, s, f, fa) = (w1, s + 1, f, fa)
            \<and> (LoadActions w = Inr L \<and> WriteFile_call (stateFile w) \<notin> set (failing (fs w))
                 \<longrightarrow> LoadActions w1 = Inr (remove1 a L))"
    by blast
qed

lemma world_patch_fails_fetch:
  "Pods_Get (Namespace action_latency) (TargetPod action_latency) (k8s world_patch_fails)
     = (Inr test_pod, send (GetPod ''default'' ''test-pod'') (k8s world_patch_fails))"
  by (simp add: Pods_Get_def world_patch_fails_def action_latency_def cluster0_def fault_now_def
      is_pod_def test_pod_def Let_def)

text \<open>In that world the patch that should remove the container fails, and the pod keeps it.\<close>

lemma world_patch_fails_pod_unchanged:
  "pods (k8s (snd (rollbackAction action_latency False world_patch_fails))) = [test_pod]"
  by (simp add: rollbackAction_def RevertTC_def removeEphemeralContainer_def Pods_Get_def
      Pods_Patch_def send_def fault_now_def is_pod_def Let_def
      world_patch_fails_def action_latency_def cluster0_def test_pod_def container_named_def
      with_ledger_def world0_def Info_def Warn_def)

theorem rollback_succeeds_when_removal_fails_witness:
  "(\<exists>w1. rollback_loop False [action_latency] (world_patch_fails, 0, 0, []) = (w1, 1, 0, [])
         \<and> LoadActions w1 = Inr [])
   \<and> LoadActions world_patch_fails = Inr [action_latency]
   \<and> pods (k8s (snd (rollbackAction action_latency False world_patch_fails))) = [test_pod]"
proof -
  have l: "LoadActions world_patch_fails = Inr [action_latency]"
    by (simp add: LoadActions_def loadActions_def world_patch_fails_def with_ledger_def world0_def
        os_IsNotExist_def os_ReadFile_def MarshalIndent_actions_def)
  have wr: "WriteFile_call (stateFile world_patch_fails) \<notin> set (failing (fs world_patch_fails))"
    by (simp add: world_patch_fails_def with_ledger_def world0_def)
  have t: "Type action_latency \<in> {''latency'', ''packetloss'', ''cpustress''}"
    by (simp add: action_latency_def)
  from rollback_succeeds_when_removal_fails [OF t world_patch_fails_fetch, of 0 0 "[]" "[action_latency]"]
    l wr world_patch_fails_pod_unchanged
  show ?thesis by simp
qed
section \<open>Properties of filterActions\<close>

lemma filterActions_loop_filter:
  "filterActions_loop actions ft fp acc =
     acc @ filter (\<lambda>a. (ft = '''' \<or> Type a = ft) \<and> (fp = '''' \<or> TargetPod a = fp)) actions"
  by (induction actions arbitrary: acc) auto

lemma filterActions_filter:
  "filterActions actions ft fp =
     filter (\<lambda>a. (ft = '''' \<or> Type a = ft) \<and> (fp = '''' \<or> TargetPod a = fp)) actions"
  by (simp add: filterActions_def filterActions_loop_filter)

text \<open>
  C6. With both filters empty, filtering returns every action in the original order. A
  non-empty type filter alone keeps exactly the actions of that type, a non-empty pod
  filter alone exactly the actions whose target pod is that pod, and two non-empty
  filters keep the actions that pass both (the intersection); the empty string is no
  filter on its axis. Every result is the ledger filtered in place, so it keeps the
  ledger's order.
\<close>

theorem filterActions_semantics:
  "filterActions actions '''' '''' = actions
   \<and> (ft \<noteq> '''' \<longrightarrow> filterActions actions ft '''' = filter (\<lambda>a. Type a = ft) actions)
   \<and> (fp \<noteq> '''' \<longrightarrow> filterActions actions '''' fp = filter (\<lambda>a. TargetPod a = fp) actions)
   \<and> (ft \<noteq> '''' \<and> fp \<noteq> '''' \<longrightarrow>
        filterActions actions ft fp = filter (\<lambda>a. Type a = ft \<and> TargetPod a = fp) actions
        \<and> set (filterActions actions ft fp)
            = set (filterActions actions ft '''') \<inter> set (filterActions actions '''' fp))
   \<and> filterActions actions ft fp
        = filter (\<lambda>a. (ft = '''' \<or> Type a = ft) \<and> (fp = '''' \<or> TargetPod a = fp)) actions"
  by (auto simp add: filterActions_filter)

theorem filterActions_semantics_witness:
  "filterActions test_actions '''' '''' = test_actions
   \<and> filterActions test_actions ''latency'' '''' = [action_latency_pod1, action_latency_pod3]
   \<and> filterActions test_actions '''' ''pod2'' = [action_cpustress_pod2]
   \<and> filterActions test_actions ''latency'' ''pod1'' = [action_latency_pod1]
   \<and> filterActions test_actions ''nonexistent'' '''' = []"
  using filterActions_semantics [of test_actions "''latency''" "''pod2''"]
    filterActions_semantics [of test_actions "''latency''" "''pod1''"]
    filterActions_semantics [of test_actions "''nonexistent''" "''pod1''"]
  by (simp add: test_actions_def action_latency_pod1_def action_cpustress_pod2_def
      action_latency_pod3_def action_misroute_service1_def)

end
